theory Spec2Isabelle
  imports Complex_Main "HOL-Library.Code_Target_Numeral"
begin

section \<open>JavaScript values used by the payment front-end\<close>

text \<open>
  Strings are lists of 8-bit characters, so the model covers the ASCII texts the
  application exchanges with the wallet provider and the backend (hexadecimal
  quantities, addresses, identifiers). An \<open>Error\<close> object is its optional numeric
  \<open>code\<close> and its \<open>message\<close>; an awaited promise either rejects with such an
  error or resolves to a value.
\<close>

record js_error =
  code :: "int option"
  message :: string

datatype 'a reply = Rejects js_error | Resolves 'a

definition new_Error :: "string \<Rightarrow> js_error" where
  "new_Error msg = \<lparr>code = None, message = msg\<rparr>"

definition startsWith :: "string \<Rightarrow> string \<Rightarrow> bool" where
  "startsWith s p = (take (length p) s = p)"

definition slice_from :: "nat \<Rightarrow> string \<Rightarrow> string" where
  "slice_from n s = drop n s"

definition charCode :: "char \<Rightarrow> nat" where
  "charCode c = of_char c"

text \<open>\<open>String.prototype.toLowerCase\<close> on ASCII text.\<close>

definition lowerOf :: "char \<Rightarrow> char" where
  "lowerOf c =
     (case map_of (zip ''ABCDEFGHIJKLMNOPQRSTUVWXYZ'' ''abcdefghijklmnopqrstuvwxyz'') c of
        None \<Rightarrow> c
      | Some l \<Rightarrow> l)"

definition toLowerCase :: "string \<Rightarrow> string" where
  "toLowerCase s = map lowerOf s"

subsection \<open>BigInt: printing in radix 16 and parsing from a string\<close>

definition hexDigit :: "nat \<Rightarrow> char" where
  "hexDigit d = ''0123456789abcdef'' ! d"

function toHex :: "nat \<Rightarrow> string" where
  "toHex n = (if n < 16 then [hexDigit n] else toHex (n div 16) @ [hexDigit (n mod 16)])"
  by pat_completeness auto
termination
  by (relation "measure id") auto

text \<open>\<open>BigInt.prototype.toString(16)\<close>: lower-case digits, a minus sign for negatives.\<close>

definition toString16 :: "int \<Rightarrow> string" where
  "toString16 n = (if n < 0 then CHR ''-'' # toHex (nat (- n)) else toHex (nat n))"

definition digitOf :: "char \<Rightarrow> nat option" where
  "digitOf c =
     (if 48 \<le> charCode c \<and> charCode c \<le> 57 then Some (charCode c - 48)
      else if 97 \<le> charCode c \<and> charCode c \<le> 102 then Some (charCode c - 87)
      else if 65 \<le> charCode c \<and> charCode c \<le> 70 then Some (charCode c - 55)
      else None)"

fun digitsVal :: "nat \<Rightarrow> nat \<Rightarrow> string \<Rightarrow> nat option" where
  "digitsVal r acc [] = Some acc"
| "digitsVal r acc (c # cs) =
     (case digitOf c of
        None \<Rightarrow> None
      | Some d \<Rightarrow> if d < r then digitsVal r (acc * r + d) cs else None)"

definition parseRadix :: "nat \<Rightarrow> string \<Rightarrow> nat option" where
  "parseRadix r s = (if s = [] then None else digitsVal r 0 s)"

definition isWhiteSpace :: "char \<Rightarrow> bool" where
  "isWhiteSpace c = (c \<in> set [CHR 0x09, CHR 0x0A, CHR 0x0B,
                                  CHR 0x0C, CHR 0x0D, CHR 0x20, CHR 0xA0])"

definition trimString :: "string \<Rightarrow> string" where
  "trimString s = rev (dropWhile isWhiteSpace (rev (dropWhile isWhiteSpace s)))"

text \<open>
  \<open>BigInt(string)\<close> follows the StringToBigInt grammar of ECMAScript: surrounding white
  space is dropped, the empty string is zero, a \<open>0x\<close>, \<open>0o\<close> or \<open>0b\<close> prefix selects
  the radix and admits no sign, and anything else is an optionally signed decimal
  numeral. \<open>None\<close> stands for the SyntaxError that \<open>BigInt\<close> throws.
\<close>

definition stringToBigInt :: "string \<Rightarrow> int option" where
  "stringToBigInt str =
     (let s = trimString str in
      if s = [] then Some 0
      else if take 2 s = ''0x'' \<or> take 2 s = ''0X'' then map_option int (parseRadix 16 (drop 2 s))
      else if take 2 s = ''0o'' \<or> take 2 s = ''0O'' then map_option int (parseRadix 8 (drop 2 s))
      else if take 2 s = ''0b'' \<or> take 2 s = ''0B'' then map_option int (parseRadix 2 (drop 2 s))
      else if hd s = CHR ''+'' then map_option int (parseRadix 10 (tl s))
      else if hd s = CHR ''-'' then map_option (\<lambda>n. - int n) (parseRadix 10 (tl s))
      else map_option int (parseRadix 10 s))"

section \<open>Payments and the payment service\<close>

datatype pstatus = pending | confirmed | failed | cancelled

text \<open>
  The \<open>Payment\<close> interface of \<open>types/payment.ts\<close>. Optional members are options. The
  record is polymorphic in the type of \<open>status\<close>: a payment held by the component has a
  status, an object received from \<open>POST /payments\<close> may lack one.
\<close>

record 's payment_rec =
  pid :: string
  amount :: string
  currency :: string
  status :: 's
  to_address :: string
  from_address :: "string option"
  transaction_hash :: "string option"
  createdAt :: string
  confirmed_at :: "string option"
  description :: "string option"

type_synonym payment = "pstatus payment_rec"

record paymentIntentRequest =
  req_to_address :: string
  req_amount :: string
  req_currency :: string
  req_transaction_hash :: string
  req_description :: "string option"

subsection \<open>One-shot observables\<close>

text \<open>
  An \<open>HttpClient\<close> observable delivers one notification: an error or a value. The
  rxjs operators \<open>map\<close>, \<open>catchError\<close> and \<open>of\<close> act on it as follows; the function
  given to \<open>map\<close> may itself throw, which turns the value into an error.
\<close>

type_synonym 'a observable = "js_error + 'a"

definition of_rx :: "'a \<Rightarrow> 'a observable" where
  "of_rx v = Inr v"

definition map_rx :: "('a \<Rightarrow> js_error + 'b) \<Rightarrow> 'a observable \<Rightarrow> 'b observable" where
  "map_rx f src = (case src of Inl e \<Rightarrow> Inl e | Inr v \<Rightarrow> f v)"

definition catchError :: "(js_error \<Rightarrow> 'a observable) \<Rightarrow> 'a observable \<Rightarrow> 'a observable" where
  "catchError h src = (case src of Inl e \<Rightarrow> h e | Inr v \<Rightarrow> Inr v)"

text \<open>
  The body of the response to \<open>GET /payments?page=1&page_size=10\<close>: \<open>None\<close> is a
  \<open>null\<close> body, and \<open>payments = None\<close> a missing or \<open>null\<close> member.
\<close>

record payments_response =
  payments_field :: "payment list option"

definition payments_or_empty :: "payments_response option \<Rightarrow> js_error + payment list" where
  "payments_or_empty response =
     (case response of
        None \<Rightarrow> Inl (new_Error ''Cannot read properties of null'')
      | Some r \<Rightarrow> (case payments_field r of None \<Rightarrow> Inr [] | Some ps \<Rightarrow> Inr ps))"

definition getRecentPayments :: "payments_response option observable \<Rightarrow> payment list observable" where
  "getRecentPayments http_get =
     catchError (\<lambda>_. of_rx []) (map_rx payments_or_empty http_get)"

section \<open>Number values in double precision\<close>

text \<open>
  A Number is \<open>NaN\<close>, an infinity or a finite double, which is held as the real number
  it denotes (negative zero is zero). \<open>toDouble\<close> rounds a real number to the nearest
  double of IEEE 754 binary64, ties to even: the unit in the last place of a number in
  \<open>[2^e, 2^(e+1))\<close> is \<open>2^(e-52)\<close>, the least exponent is \<open>-1022\<close> (below it the
  doubles are subnormal), and a result of \<open>2^1024\<close> or more is infinite.
\<close>

datatype number = NaN | PosInfinity | NegInfinity | Finite real

function bitLength :: "nat \<Rightarrow> nat" where
  "bitLength n = (if n = 0 then 0 else Suc (bitLength (n div 2)))"
  by pat_completeness auto
termination
  by (relation "measure id") auto

definition pow2 :: "int \<Rightarrow> real" where
  "pow2 k = (if 0 \<le> k then 2 ^ nat k else 1 / 2 ^ nat (- k))"

definition pow10 :: "int \<Rightarrow> real" where
  "pow10 k = (if 0 \<le> k then 10 ^ nat k else 1 / 10 ^ nat (- k))"

text \<open>The integer part of the binary logarithm of a positive number.\<close>

definition floorLog2 :: "real \<Rightarrow> int" where
  "floorLog2 x =
     (if 1 \<le> x then int (bitLength (nat \<lfloor>x\<rfloor>)) - 1
      else - int (bitLength (nat (\<lceil>1 / x\<rceil> - 1))))"

definition roundHalfEven :: "real \<Rightarrow> int" where
  "roundHalfEven q =
     (let n = \<lfloor>q\<rfloor>; r = q - of_int n
      in if r < 1 / 2 then n else if 1 / 2 < r then n + 1 else if even n then n else n + 1)"

definition roundPositive :: "real \<Rightarrow> number" where
  "roundPositive x =
     (let e = max (floorLog2 x) (- 1022);
          ulp = pow2 (e - 52);
          m = roundHalfEven (x / ulp)
      in if of_int m * ulp < pow2 1024 then Finite (of_int m * ulp) else PosInfinity)"

definition negate :: "number \<Rightarrow> number" where
  "negate n =
     (case n of
        NaN \<Rightarrow> NaN
      | PosInfinity \<Rightarrow> NegInfinity
      | NegInfinity \<Rightarrow> PosInfinity
      | Finite x \<Rightarrow> Finite (- x))"

definition toDouble :: "real \<Rightarrow> number" where
  "toDouble x =
     (if x = 0 then Finite 0
      else if 0 < x then roundPositive x
      else negate (roundPositive (- x)))"

subsection \<open>parseFloat\<close>

definition isDigit :: "char \<Rightarrow> bool" where
  "isDigit c = (48 \<le> charCode c \<and> charCode c \<le> 57)"

definition decimalValue :: "string \<Rightarrow> nat" where
  "decimalValue ds = foldl (\<lambda>acc c. acc * 10 + (charCode c - 48)) 0 ds"

text \<open>
  The value of an ExponentPart at the head of the text; zero when there is none (an
  exponent indicator without digits is not part of the literal).
\<close>

definition exponentPart :: "string \<Rightarrow> int" where
  "exponentPart s =
     (if s \<noteq> [] \<and> (hd s = CHR ''e'' \<or> hd s = CHR ''E'') then
        (let r = tl s;
             neg = (r \<noteq> [] \<and> hd r = CHR ''-'');
             ds = takeWhile isDigit
                    (if r \<noteq> [] \<and> (hd r = CHR ''+'' \<or> hd r = CHR ''-'') then tl r else r)
         in if ds = [] then 0
            else if neg then - int (decimalValue ds) else int (decimalValue ds))
      else 0)"

text \<open>
  \<open>parseFloat\<close> of ECMAScript: leading white space is dropped and the longest prefix
  that is a StrDecimalLiteral (an optional sign, then \<open>Infinity\<close> or decimal digits
  with an optional fraction and exponent) is read; without such a prefix the result is
  \<open>NaN\<close>. The mathematical value of the literal is rounded to a double.
\<close>

definition parseFloat :: "string \<Rightarrow> number" where
  "parseFloat inputString =
     (let trimmed = dropWhile isWhiteSpace inputString;
          negative = (trimmed \<noteq> [] \<and> hd trimmed = CHR ''-'');
          unsigned = (if trimmed \<noteq> [] \<and> (hd trimmed = CHR ''+'' \<or> hd trimmed = CHR ''-'')
                      then tl trimmed else trimmed)
      in if startsWith unsigned ''Infinity'' then (if negative then NegInfinity else PosInfinity)
         else
           (let intPart = takeWhile isDigit unsigned;
                afterInt = dropWhile isDigit unsigned;
                hasDot = (afterInt \<noteq> [] \<and> hd afterInt = CHR ''.'');
                fracPart = (if hasDot then takeWhile isDigit (tl afterInt) else []);
                afterFrac = (if hasDot then dropWhile isDigit (tl afterInt) else afterInt)
            in if intPart = [] \<and> fracPart = [] then NaN
               else
                 (let mv = of_nat (decimalValue (intPart @ fracPart)) / 10 ^ length fracPart
                             * pow10 (exponentPart afterFrac)
                  in if negative then negate (toDouble mv) else toDouble mv)))"

subsection \<open>Multiplication, Math.floor and BigInt of a Number\<close>

definition scaleInfinity :: "real \<Rightarrow> number \<Rightarrow> number" where
  "scaleInfinity x i = (if x = 0 then NaN else if 0 < x then i else negate i)"

definition times :: "number \<Rightarrow> number \<Rightarrow> number" where
  "times a b =
     (case a of
        NaN \<Rightarrow> NaN
      | Finite x \<Rightarrow>
          (case b of
             NaN \<Rightarrow> NaN
           | Finite y \<Rightarrow> toDouble (x * y)
           | PosInfinity \<Rightarrow> scaleInfinity x PosInfinity
           | NegInfinity \<Rightarrow> scaleInfinity x NegInfinity)
      | PosInfinity \<Rightarrow>
          (case b of
             NaN \<Rightarrow> NaN
           | Finite y \<Rightarrow> scaleInfinity y PosInfinity
           | PosInfinity \<Rightarrow> PosInfinity
           | NegInfinity \<Rightarrow> NegInfinity)
      | NegInfinity \<Rightarrow>
          (case b of
             NaN \<Rightarrow> NaN
           | Finite y \<Rightarrow> scaleInfinity y NegInfinity
           | PosInfinity \<Rightarrow> NegInfinity
           | NegInfinity \<Rightarrow> PosInfinity))"

text \<open>The literal \<open>1e18\<close>; \<open>10^18\<close> is a double.\<close>

definition literal_1e18 :: number where
  "literal_1e18 = Finite (10 ^ 18)"

definition Math_floor :: "number \<Rightarrow> number" where
  "Math_floor n = (case n of Finite x \<Rightarrow> Finite (of_int \<lfloor>x\<rfloor>) | other \<Rightarrow> other)"

text \<open>
  \<open>BigInt(number)\<close> is the integer the number denotes; for a number that is not
  integral it throws a RangeError, whose message names the number (for a finite
  fraction the digits are left out here).
\<close>

definition numberName :: "number \<Rightarrow> string" where
  "numberName n =
     (case n of
        NaN \<Rightarrow> ''NaN''
      | PosInfinity \<Rightarrow> ''Infinity''
      | NegInfinity \<Rightarrow> ''-Infinity''
      | Finite x \<Rightarrow> ''a fraction'')"

definition RangeError :: "number \<Rightarrow> js_error" where
  "RangeError n =
     new_Error (''The number '' @ numberName n @
                '' cannot be converted to a BigInt because it is not an integer'')"

definition BigInt_number :: "number \<Rightarrow> js_error + int" where
  "BigInt_number n =
     (case n of
        Finite x \<Rightarrow> if of_int \<lfloor>x\<rfloor> = x then Inr \<lfloor>x\<rfloor> else Inl (RangeError n)
      | other \<Rightarrow> Inl (RangeError n))"

section \<open>Conversion of an amount to wei\<close>

text \<open>
  \<open>convertToWei\<close> has two branches with the same body:
  \<open>BigInt(Math.floor(parseFloat(amount) * 1e18))\<close>, printed in radix 16 after \<open>0x\<close>.
\<close>

definition convertToWei :: "string \<Rightarrow> string \<Rightarrow> js_error + string" where
  "convertToWei amt cur =
     (if cur = ''ETH'' then
        (case BigInt_number (Math_floor (times (parseFloat amt) literal_1e18)) of
           Inl e \<Rightarrow> Inl e
         | Inr amountBigInt \<Rightarrow> Inr (''0x'' @ toString16 amountBigInt))
      else
        (case BigInt_number (Math_floor (times (parseFloat amt) literal_1e18)) of
           Inl e \<Rightarrow> Inl e
         | Inr amountBigInt \<Rightarrow> Inr (''0x'' @ toString16 amountBigInt)))"

section \<open>The browser: wallet provider, window and local storage\<close>

text \<open>
  A transaction receipt is read only through its \<open>status\<close> member, which the code
  compares with two strings and the number one.
\<close>

datatype jsval = JString string | JNumber int | JOther

record receipt =
  receipt_status :: jsval

text \<open>
  The injected provider is described by what it answers to each method the
  application calls. \<open>eth_getTransactionReceipt\<close> is asked repeatedly: its answer
  depends on the number of earlier requests of the same loop.
\<close>

record ethereumProvider =
  wallet_requestPermissions :: "unit reply"
  eth_requestAccounts :: "string list option reply"
  eth_chainId :: "string option reply"
  eth_getBalance :: "string reply"
  eth_gasPrice :: "string reply"
  eth_sendTransaction :: "string reply"
  eth_getTransactionReceipt :: "nat \<Rightarrow> receipt option reply"

record window =
  ethereum :: "ethereumProvider option"
  localStorage :: "string \<rightharpoonup> string"

section \<open>WalletService\<close>

text \<open>
  What indexing the object \<open>NETWORK_MAP\<close> yields and \<open>??\<close> lets through: a text, or
  a member that the object inherits from \<open>Object.prototype\<close>, given by its name.
\<close>

datatype member = Text string | PrototypeMember string

record walletConnection =
  address :: string
  chainId :: "string option"
  networkName :: member

text \<open>The own keys of the \<open>NETWORK_MAP\<close> object literal.\<close>

definition NETWORK_MAP :: "string \<rightharpoonup> string" where
  "NETWORK_MAP = map_of
     [(''0x1'', ''Ethereum Mainnet''),
      (''0x5'', ''Goerli Testnet''),
      (''0xaa36a7'', ''Sepolia Testnet''),
      (''0x89'', ''Polygon Mainnet''),
      (''0x13881'', ''Polygon Mumbai''),
      (''0xa4b1'', ''Arbitrum One''),
      (''0xa'', ''Optimism'')]"

text \<open>
  \<open>NETWORK_MAP\<close> is a plain object, so an index that is not an own key is looked up in
  \<open>Object.prototype\<close>, whose members are these.
\<close>

definition Object_prototype :: "string list" where
  "Object_prototype =
     [''constructor'', ''__proto__'', ''hasOwnProperty'', ''isPrototypeOf'',
      ''propertyIsEnumerable'', ''toLocaleString'', ''toString'', ''valueOf'',
      ''__defineGetter__'', ''__defineSetter__'', ''__lookupGetter__'', ''__lookupSetter__'']"

text \<open>\<open>NETWORK_MAP[key]\<close>; \<open>None\<close> is \<open>undefined\<close>.\<close>

definition NETWORK_MAP_at :: "string \<Rightarrow> member option" where
  "NETWORK_MAP_at key =
     (case NETWORK_MAP key of
        Some nm \<Rightarrow> Some (Text nm)
      | None \<Rightarrow> if key \<in> set Object_prototype then Some (PrototypeMember key) else None)"

definition WALLET_ADDRESS_KEY :: string where
  "WALLET_ADDRESS_KEY = ''walletAddress''"

text \<open>\<open>typeof window !== 'undefined' ? window.ethereum : undefined\<close>\<close>

definition provider :: "window option \<Rightarrow> ethereumProvider option" where
  "provider w = (case w of None \<Rightarrow> None | Some win \<Rightarrow> ethereum win)"

definition ensureProvider :: "window option \<Rightarrow> js_error + ethereumProvider" where
  "ensureProvider w =
     (case provider w of
        None \<Rightarrow> Inl (new_Error
          ''MetaMask was not detected. Please install or enable it in your browser.'')
      | Some p \<Rightarrow> Inr p)"

definition persistWalletAddress :: "string \<Rightarrow> window option \<Rightarrow> window option" where
  "persistWalletAddress a w =
     (case w of
        None \<Rightarrow> None
      | Some win \<Rightarrow> Some (win\<lparr>localStorage := (localStorage win)(WALLET_ADDRESS_KEY \<mapsto> a)\<rparr>))"

text \<open>
  The permission step of \<open>connectWallet\<close>: a rejection with code 4001 is rethrown with
  a new message, any other rejection is swallowed.
\<close>

definition requestPermissions :: "bool \<Rightarrow> ethereumProvider \<Rightarrow> js_error option" where
  "requestPermissions forceAccountSelection p =
     (if forceAccountSelection then
        (case wallet_requestPermissions p of
           Rejects e \<Rightarrow>
             if code e = Some 4001
             then Some (new_Error
               ''Account selection was rejected. Please select an account to continue.'')
             else None
         | Resolves _ \<Rightarrow> None)
      else None)"

text \<open>\<open>NETWORK_MAP[chainId?.toLowerCase() ?? ''] ?? 'Unknown Network'\<close>\<close>

definition networkNameOf :: "string option \<Rightarrow> member" where
  "networkNameOf cid =
     (case NETWORK_MAP_at (case cid of None \<Rightarrow> [] | Some c \<Rightarrow> toLowerCase c) of
        None \<Rightarrow> Text ''Unknown Network''
      | Some m \<Rightarrow> m)"

text \<open>
  \<open>connectWallet\<close> returns the thrown error or the connection, together with the
  window, whose local storage it may have written.
\<close>

definition connectWallet :: "bool \<Rightarrow> window option \<Rightarrow> (js_error + walletConnection) \<times> window option" where
  "connectWallet forceAccountSelection w =
     (case ensureProvider w of
        Inl e \<Rightarrow> (Inl e, w)
      | Inr p \<Rightarrow>
          (case requestPermissions forceAccountSelection p of
             Some e \<Rightarrow> (Inl e, w)
           | None \<Rightarrow>
               (case eth_requestAccounts p of
                  Rejects e \<Rightarrow> (Inl e, w)
                | Resolves accounts \<Rightarrow>
                    (case accounts of
                       None \<Rightarrow> (Inl (new_Error
                         ''No accounts selected. Please select an account in MetaMask.''), w)
                     | Some [] \<Rightarrow> (Inl (new_Error
                         ''No accounts selected. Please select an account in MetaMask.''), w)
                     | Some (first_account # _) \<Rightarrow>
                         (case eth_chainId p of
                            Rejects e \<Rightarrow> (Inl e, w)
                          | Resolves cid \<Rightarrow>
                              (Inr \<lparr>address = first_account, chainId = cid,
                                    networkName = networkNameOf cid\<rparr>,
                               persistWalletAddress first_account w))))))"

section \<open>AppComponent: state and effects\<close>

function toDecimal :: "nat \<Rightarrow> string" where
  "toDecimal n = (if n < 10 then [hexDigit n] else toDecimal (n div 10) @ [hexDigit (n mod 10)])"
  by pat_completeness auto
termination
  by (relation "measure id") auto

text \<open>The text a template literal inserts for an integral number.\<close>

definition toString10 :: "int \<Rightarrow> string" where
  "toString10 n = (if n < 0 then CHR ''-'' # toDecimal (nat (- n)) else toDecimal (nat n))"

record walletSnapshot =
  connected :: bool
  ws_address :: "string option"
  ws_networkName :: "string option"
  ws_chainId :: "string option"
  balance :: "string option"

text \<open>
  The raw value of the payment form. The amount is a double in the source; the form
  holds here the text \<open>payload.amount.toString()\<close> and the verdict of the two
  validators of that control (\<open>required\<close>, \<open>min(0.0001)\<close>).
\<close>

record paymentForm =
  f_amount :: string
  f_amount_valid :: bool
  f_currency :: string
  recipientWallet :: string
  phoneSearch :: string
  reference :: string
  memo :: string

text \<open>
  \<open>paymentForm.invalid\<close>: the currency is required, the recipient is required and
  has at least six characters (\<open>minLength\<close> accepts the empty text, \<open>required\<close> does
  not).
\<close>

definition paymentForm_invalid :: "paymentForm \<Rightarrow> bool" where
  "paymentForm_invalid f =
     (\<not> f_amount_valid f \<or> f_currency f = [] \<or> recipientWallet f = [] \<or>
      (recipientWallet f \<noteq> [] \<and> length (recipientWallet f) < 6))"

definition paymentForm_reset :: paymentForm where
  "paymentForm_reset =
     \<lparr>f_amount = ''0.25'', f_amount_valid = True, f_currency = ''USDC'', recipientWallet = [],
      phoneSearch = [], reference = [], memo = []\<rparr>"

datatype tone = success | error | info

datatype rpc =
    Eth_getBalance "string option" string
  | Eth_gasPrice
  | Eth_sendTransaction "string option" string string string
  | Eth_getTransactionReceipt string

text \<open>
  The variables captured by the callbacks that \<open>submitPayment\<close> subscribes to the
  \<open>createPaymentIntent\<close> observable.
\<close>

record subscriber =
  sub_payload :: paymentForm
  sub_pendingId :: string
  sub_txHash :: string
  transactionConfirmed :: bool

text \<open>
  What the component does to the outside, in the order in which it does it: toasts,
  writes of the \<open>payments\<close> signal, calls of \<open>convertToWei\<close>, provider requests,
  timer waits (milliseconds) and backend requests.
\<close>

datatype effect =
    Toast tone string
  | PaymentsWrite "payment list"
  | ConvertToWei string string
  | Request rpc
  | Wait nat
  | CreatePaymentIntent paymentIntentRequest subscriber
  | GetRecentPayments

text \<open>
  One timer made by \<open>setInterval\<close> for the status polling: the variables its callback
  captures, its period, and whether it has not been cleared. The callbacks of requests
  that are still under way when the timer is cleared keep the captured variables.
\<close>

record poller =
  pollCount :: nat
  poll_paymentId :: string
  poll_txHash :: string
  period :: nat
  running :: bool

record app =
  walletState :: walletSnapshot
  payments :: "payment list"
  submittingPayment :: bool
  paymentForm :: paymentForm
  isAuthenticated :: bool
  paymentPollingIntervals :: "string \<rightharpoonup> nat"
  intervals :: "nat \<rightharpoonup> poller"
  lastInterval :: nat
  effects :: "effect list"

text \<open>
  The surroundings of one run: the browser window, the clock (\<open>Date.now()\<close> and the
  ISO text of an instant), and \<open>new Date(text).getTime()\<close>, which is \<open>None\<close> for
  \<open>NaN\<close>.
\<close>

record env =
  browser :: window
  date_now :: int
  toISOString :: "int \<Rightarrow> string"
  getTime :: "string \<Rightarrow> int option"

definition emit :: "effect \<Rightarrow> app \<Rightarrow> app" where
  "emit e a = a\<lparr>effects := effects a @ [e]\<rparr>"

definition new_effects :: "app \<Rightarrow> app \<Rightarrow> effect list" where
  "new_effects earlier later = drop (length (effects earlier)) (effects later)"

definition set_payments :: "payment list \<Rightarrow> app \<Rightarrow> app" where
  "set_payments ps a = emit (PaymentsWrite ps) (a\<lparr>payments := ps\<rparr>)"

text \<open>
  A toast is recorded as an effect; the list of notifications and the timer that
  dismisses a toast are not part of the model.
\<close>

definition pushToast :: "tone \<Rightarrow> string \<Rightarrow> app \<Rightarrow> app" where
  "pushToast t text a = emit (Toast t text) a"

text \<open>The truth value of an optional string: absent and empty are false.\<close>

definition truthy :: "string option \<Rightarrow> bool" where
  "truthy s = (case s of None \<Rightarrow> False | Some t \<Rightarrow> t \<noteq> [])"

definition updatePaymentStatus :: "string \<Rightarrow> pstatus \<Rightarrow> string option \<Rightarrow> string option \<Rightarrow> app \<Rightarrow> app" where
  "updatePaymentStatus paymentId st errorMessage txHash a =
     set_payments
       (map (\<lambda>p. if pid p = paymentId
                 then (let p1 = p\<lparr>status := st,
                                    transaction_hash :=
                                      (if truthy txHash then txHash else transaction_hash p)\<rparr>
                       in if truthy errorMessage \<and> st = failed
                          then p1\<lparr>description := errorMessage\<rparr> else p1)
                 else p)
            (payments a))
       a"

section \<open>AppComponent.submitPayment\<close>

definition maxAttempts :: nat where
  "maxAttempts = 60"

text \<open>
  One pass of the \<open>try\<close> block inside the receipt loop: the value of the variable
  \<open>receipt\<close> after it. A rejected request is caught and logged, and leaves
  \<open>receipt\<close> undefined, as a \<open>null\<close> answer does.
\<close>

definition receipt_of :: "receipt option reply \<Rightarrow> receipt option" where
  "receipt_of answer = (case answer of Rejects e \<Rightarrow> None | Resolves r \<Rightarrow> r)"

text \<open>
  The receipt loop, from the attempt counter on: the receipt it leaves in \<open>receipt\<close>
  and the requests and waits it performs. A receipt ends it; otherwise a wait of five
  seconds and the next attempt follow. The loop touches no component state.
\<close>

function pollReceipt :: "(nat \<Rightarrow> receipt option reply) \<Rightarrow> string \<Rightarrow> nat \<Rightarrow> receipt option \<times> effect list" where
  "pollReceipt answers txHash attempts =
     (if attempts < maxAttempts then
        (case receipt_of (answers attempts) of
           Some r \<Rightarrow> (Some r, [Request (Eth_getTransactionReceipt txHash)])
         | None \<Rightarrow>
             (let later = pollReceipt answers txHash (Suc attempts)
              in (fst later,
                  Request (Eth_getTransactionReceipt txHash) # Wait 5000 # snd later)))
      else (None, []))"
  by pat_completeness auto
termination
  by (relation "measure (\<lambda>(answers, txHash, attempts). maxAttempts - attempts)") auto

definition isSuccess :: "receipt \<Rightarrow> bool" where
  "isSuccess r =
     (receipt_status r = JString ''0x1'' \<or> receipt_status r = JString ''0x01'' \<or>
      receipt_status r = JNumber 1)"

definition hexClean :: "string \<Rightarrow> string" where
  "hexClean h = (if startsWith h ''0x'' then slice_from 2 h else h)"

definition msg_or :: "js_error \<Rightarrow> string \<Rightarrow> string" where
  "msg_or e d = (if message e = [] then d else message e)"

text \<open>
  The inner \<open>try\<close> block of the balance check: whether it reaches the comparison
  \<open>balanceWei < totalNeeded\<close> and finds it true, and the provider requests it makes.
  Any rejection and any SyntaxError of \<open>BigInt\<close> leaves the block through its
  \<open>catch\<close>, which only logs. The amount is parsed before the gas price is requested.
\<close>

definition balanceCheck :: "ethereumProvider \<Rightarrow> string option \<Rightarrow> string \<Rightarrow> bool \<times> effect list" where
  "balanceCheck p walletAddress amountInWeiHex =
     (case eth_getBalance p of
        Rejects e \<Rightarrow> (False, [Request (Eth_getBalance walletAddress ''latest'')])
      | Resolves balanceHex \<Rightarrow>
          (case stringToBigInt (''0x'' @ hexClean balanceHex) of
             None \<Rightarrow> (False, [Request (Eth_getBalance walletAddress ''latest'')])
           | Some balanceWei \<Rightarrow>
               (case stringToBigInt (hexClean amountInWeiHex) of
                  None \<Rightarrow> (False, [Request (Eth_getBalance walletAddress ''latest'')])
                | Some amountInWei \<Rightarrow>
                    (let gasEstimate = 21000;
                         requests = [Request (Eth_getBalance walletAddress ''latest''),
                                     Request Eth_gasPrice]
                     in case eth_gasPrice p of
                          Rejects e \<Rightarrow> (False, requests)
                        | Resolves gasPriceHex \<Rightarrow>
                            (case stringToBigInt (''0x'' @ hexClean gasPriceHex) of
                               None \<Rightarrow> (False, requests)
                             | Some gasPrice \<Rightarrow>
                                 (let totalNeeded = amountInWei + gasEstimate * gasPrice
                                  in (balanceWei < totalNeeded, requests)))))))"

definition intentDescription :: "paymentForm \<Rightarrow> string option" where
  "intentDescription payload =
     (if memo payload \<noteq> []
      then Some ((if reference payload \<noteq> [] then ''Ref: '' @ reference payload @ ''. '' else [])
                 @ memo payload)
      else if reference payload \<noteq> [] then Some (reference payload) else None)"

definition currencyOrETH :: "paymentForm \<Rightarrow> string" where
  "currencyOrETH payload = (if f_currency payload = [] then ''ETH'' else f_currency payload)"

definition createIntent :: "paymentForm \<Rightarrow> string \<Rightarrow> string \<Rightarrow> bool \<Rightarrow> app \<Rightarrow> app" where
  "createIntent payload pendingId txHash txConfirmed a =
     emit (CreatePaymentIntent
             \<lparr>req_to_address = recipientWallet payload,
              req_amount = f_amount payload,
              req_currency = currencyOrETH payload,
              req_transaction_hash = txHash,
              req_description = intentDescription payload\<rparr>
             \<lparr>sub_payload = payload, sub_pendingId = pendingId, sub_txHash = txHash,
              transactionConfirmed = txConfirmed\<rparr>) a"

text \<open>What follows the receipt loop: the status decided by the chain, then the backend.\<close>

definition settle :: "paymentForm \<Rightarrow> string \<Rightarrow> string \<Rightarrow> receipt option \<Rightarrow> app \<Rightarrow> app" where
  "settle payload pendingId txHash rcpt a =
     (case rcpt of
        None \<Rightarrow>
          createIntent payload pendingId txHash False
            (pushToast info
               ''Transaction submitted but confirmation is taking longer than expected. It will be confirmed shortly.''
               (updatePaymentStatus pendingId pending (Some ''Transaction pending confirmation'') None a))
      | Some r \<Rightarrow>
          if isSuccess r then
            createIntent payload pendingId txHash True
              (pushToast success ''Transaction confirmed successfully!''
                 (updatePaymentStatus pendingId confirmed None (Some txHash) a))
          else
            (pushToast error
               ''Transaction failed on blockchain. Please check your balance and try again.''
               (updatePaymentStatus pendingId failed (Some ''Transaction reverted on blockchain'') None a))
            \<lparr>submittingPayment := False\<rparr>)"

definition sendTransaction :: "ethereumProvider \<Rightarrow> paymentForm \<Rightarrow> string option \<Rightarrow> string \<Rightarrow> string \<Rightarrow> app \<Rightarrow> app" where
  "sendTransaction p payload walletAddress pendingId amountInWeiHex a =
     (let a1 = emit (Request (Eth_sendTransaction walletAddress (recipientWallet payload)
                                amountInWeiHex ''0x5208'')) a
      in case eth_sendTransaction p of
           Rejects txError \<Rightarrow>
             (if code txError = Some 4001
              then pushToast error ''Transaction was rejected. Please try again.''
                     (updatePaymentStatus pendingId failed (Some ''Transaction rejected by user'') None a1)
              else pushToast error (msg_or txError ''Transaction failed'')
                     (updatePaymentStatus pendingId failed
                        (Some (msg_or txError ''Transaction failed'')) None a1))
             \<lparr>submittingPayment := False\<rparr>
         | Resolves txHash \<Rightarrow>
             (let a2 = pushToast info ''Transaction signed. Waiting for confirmation...''
                         (updatePaymentStatus pendingId pending None (Some txHash) a1);
                  polled = pollReceipt (eth_getTransactionReceipt p) txHash 0;
                  a3 = a2\<lparr>effects := effects a2 @ snd polled\<rparr>
              in settle payload pendingId txHash (fst polled) a3))"

text \<open>
  The outer \<open>try\<close> block. The only exception that reaches its \<open>catch\<close> is the
  RangeError of \<open>convertToWei\<close>. When the balance check finds the balance
  insufficient, the payment is marked failed and the function returns.
\<close>

definition submit_try :: "env \<Rightarrow> paymentForm \<Rightarrow> string option \<Rightarrow> string \<Rightarrow> app \<Rightarrow> app" where
  "submit_try ev payload walletAddress pendingId a =
     (case ethereum (browser ev) of
        None \<Rightarrow>
          (updatePaymentStatus pendingId failed (Some ''MetaMask not available'') None
             (pushToast error ''MetaMask is not available'' a))
          \<lparr>submittingPayment := False\<rparr>
      | Some p \<Rightarrow>
          (let a1 = emit (ConvertToWei (f_amount payload) (f_currency payload)) a
           in case convertToWei (f_amount payload) (f_currency payload) of
                Inl err \<Rightarrow>
                  (pushToast error (message err)
                     (updatePaymentStatus pendingId failed (Some (msg_or err ''Transaction failed''))
                        None a1))
                  \<lparr>submittingPayment := False\<rparr>
              | Inr amountInWeiHex \<Rightarrow>
                  (let checked = balanceCheck p walletAddress amountInWeiHex;
                       a2 = a1\<lparr>effects := effects a1 @ snd checked\<rparr>
                   in if fst checked then
                        (pushToast error
                           ''Insufficient balance. Please add more funds to your wallet.''
                           (updatePaymentStatus pendingId failed (Some ''Insufficient balance'')
                              None a2))
                        \<lparr>submittingPayment := False\<rparr>
                      else sendTransaction p payload walletAddress pendingId amountInWeiHex a2)))"

definition pendingRecord :: "env \<Rightarrow> paymentForm \<Rightarrow> string option \<Rightarrow> payment" where
  "pendingRecord ev payload walletAddress =
     \<lparr>pid = ''pending-'' @ toString10 (date_now ev),
      amount = f_amount payload,
      currency = currencyOrETH payload,
      status = pending,
      to_address = recipientWallet payload,
      from_address = walletAddress,
      transaction_hash = None,
      createdAt = toISOString ev (date_now ev),
      confirmed_at = None,
      description = None\<rparr>"

text \<open>
  The component after the optimistic insert, where the \<open>try\<close> block begins:
  \<open>submittingPayment\<close> is set and the pending record is put in front of the payments,
  of which ten are kept.
\<close>

definition insertPending :: "env \<Rightarrow> app \<Rightarrow> app" where
  "insertPending ev a =
     (let a1 = a\<lparr>submittingPayment := True\<rparr>;
          payload = paymentForm a1;
          walletAddress = ws_address (walletState a1);
          pendingPayment = pendingRecord ev payload walletAddress
      in set_payments (take 10 (pendingPayment # payments a1)) a1)"

definition submitPayment :: "env \<Rightarrow> app \<Rightarrow> app" where
  "submitPayment ev a =
     (if paymentForm_invalid (paymentForm a) then
        pushToast error ''Please complete the payment details'' a
      else if \<not> connected (walletState a) then
        pushToast error ''Connect your MetaMask wallet before sending payments'' a
      else
        (let payload = paymentForm a;
             walletAddress = ws_address (walletState a);
             pendingPayment = pendingRecord ev payload walletAddress
         in submit_try ev payload walletAddress (pid pendingPayment) (insertPending ev a)))"

section \<open>Loading and merging the recent payments\<close>

text \<open>
  The comparator given to \<open>Array.prototype.sort\<close>: the difference of the two
  creation times, \<open>NaN\<close> when a date does not parse, which \<open>sort\<close> reads as zero.
\<close>

definition byCreatedAtDesc :: "(string \<Rightarrow> int option) \<Rightarrow> payment \<Rightarrow> payment \<Rightarrow> int" where
  "byCreatedAtDesc gt x y =
     (case gt (createdAt y) of
        None \<Rightarrow> 0
      | Some ty \<Rightarrow> (case gt (createdAt x) of None \<Rightarrow> 0 | Some tx \<Rightarrow> ty - tx))"

text \<open>
  \<open>sort\<close> is stable; it is modelled by the stable insertion sort, which is what any
  stable sort computes for a consistent comparator.
\<close>

fun insert_sorted :: "('a \<Rightarrow> 'a \<Rightarrow> int) \<Rightarrow> 'a \<Rightarrow> 'a list \<Rightarrow> 'a list" where
  "insert_sorted cmp x [] = [x]"
| "insert_sorted cmp x (y # ys) =
     (if cmp x y \<le> 0 then x # y # ys else y # insert_sorted cmp x ys)"

definition array_sort :: "('a \<Rightarrow> 'a \<Rightarrow> int) \<Rightarrow> 'a list \<Rightarrow> 'a list" where
  "array_sort cmp xs = foldr (insert_sorted cmp) xs []"

text \<open>
  The demo payments are built when the component is constructed; \<open>ctor\<close> is the
  environment of that moment.
\<close>

definition demoPayments :: "env \<Rightarrow> payment list" where
  "demoPayments ctor =
     [\<lparr>pid = ''demo-1'', amount = ''2.4'', currency = ''ETH'', status = confirmed,
       to_address = ''0x9F57...21B3'', from_address = None,
       transaction_hash = Some ''0x53fe7c...'',
       createdAt = toISOString ctor (date_now ctor), confirmed_at = None, description = None\<rparr>,
      \<lparr>pid = ''demo-2'', amount = ''1800'', currency = ''USDC'', status = pending,
       to_address = ''0xa6e0...19C1'', from_address = None, transaction_hash = None,
       createdAt = toISOString ctor (date_now ctor - 1000 * 60 * 20), confirmed_at = None,
       description = None\<rparr>,
      \<lparr>pid = ''demo-3'', amount = ''0.84'', currency = ''ETH'', status = failed,
       to_address = ''0x317b...4C99'', from_address = None, transaction_hash = None,
       createdAt = toISOString ctor (date_now ctor - 1000 * 60 * 55), confirmed_at = None,
       description = None\<rparr>]"

text \<open>
  \<open>loadRecentPayments\<close> up to its subscription; the two callbacks follow. The
  observable of \<open>getRecentPayments\<close> is answered later, so the request is an effect.
\<close>

definition loadRecentPayments :: "env \<Rightarrow> app \<Rightarrow> app" where
  "loadRecentPayments ctor a =
     (if \<not> isAuthenticated a then set_payments (demoPayments ctor) a
      else emit GetRecentPayments a)"

definition existsInBackend :: "payment list \<Rightarrow> payment \<Rightarrow> bool" where
  "existsInBackend items existingPayment =
     list_ex (\<lambda>item. pid item = pid existingPayment \<or>
                     (truthy (transaction_hash item) \<and>
                      transaction_hash item = transaction_hash existingPayment)) items"

definition mergeLocalPending :: "payment list \<Rightarrow> payment list \<Rightarrow> payment list" where
  "mergeLocalPending items existing =
     foldl (\<lambda>merged existingPayment.
              if \<not> existsInBackend items existingPayment \<and> status existingPayment = pending
              then existingPayment # merged else merged)
           items existing"

definition loadRecentPayments_next :: "env \<Rightarrow> payment list \<Rightarrow> app \<Rightarrow> app" where
  "loadRecentPayments_next ev items a =
     (if items \<noteq> [] then
        set_payments
          (take 10 (array_sort (byCreatedAtDesc (getTime ev))
                      (mergeLocalPending items (payments a)))) a
      else if payments a = [] then set_payments [] a
      else a)"

definition loadRecentPayments_error :: "app \<Rightarrow> app" where
  "loadRecentPayments_error a = a"

section \<open>Polling the status of a pending payment\<close>

definition maxPolls :: nat where
  "maxPolls = 30"

text \<open>
  \<open>clearInterval\<close> stops the timer; the variables its callback captured stay, for the
  callbacks of requests that are under way.
\<close>

definition clearInterval :: "nat \<Rightarrow> app \<Rightarrow> app" where
  "clearInterval i a =
     (case intervals a i of
        None \<Rightarrow> a
      | Some pl \<Rightarrow> a\<lparr>intervals := (intervals a)(i \<mapsto> pl\<lparr>running := False\<rparr>)\<rparr>)"

text \<open>\<open>clearInterval(intervalId); this.paymentPollingIntervals.delete(paymentId)\<close>\<close>

definition stopPolling :: "nat \<Rightarrow> string \<Rightarrow> app \<Rightarrow> app" where
  "stopPolling i paymentId a =
     (clearInterval i a)\<lparr>paymentPollingIntervals := (paymentPollingIntervals a)(paymentId := None)\<rparr>"

text \<open>\<open>window.setInterval\<close> hands out a fresh positive identifier.\<close>

definition startPaymentStatusPolling :: "string \<Rightarrow> string \<Rightarrow> app \<Rightarrow> app" where
  "startPaymentStatusPolling paymentId txHash a =
     (let a1 = (case paymentPollingIntervals a paymentId of
                  None \<Rightarrow> a
                | Some existingInterval \<Rightarrow>
                    if existingInterval \<noteq> 0 then clearInterval existingInterval a else a);
          intervalId = Suc (lastInterval a1);
          a2 = a1\<lparr>lastInterval := intervalId,
                   intervals := (intervals a1)(intervalId \<mapsto>
                     \<lparr>pollCount = 0, poll_paymentId = paymentId, poll_txHash = txHash,
                      period = 10000, running = True\<rparr>)\<rparr>
      in a2\<lparr>paymentPollingIntervals := (paymentPollingIntervals a2)(paymentId \<mapsto> intervalId)\<rparr>)"

definition matches :: "string \<Rightarrow> string \<Rightarrow> payment \<Rightarrow> bool" where
  "matches paymentId txHash p = (pid p = paymentId \<or> transaction_hash p = Some txHash)"

text \<open>The \<open>then\<close> and \<open>catch\<close> callbacks of a receipt request of the interval \<open>i\<close>.\<close>

definition onReceipt :: "env \<Rightarrow> nat \<Rightarrow> string \<Rightarrow> string \<Rightarrow> receipt option reply \<Rightarrow> app \<Rightarrow> app" where
  "onReceipt ev i paymentId txHash answer a =
     (case answer of
        Rejects e \<Rightarrow> a
      | Resolves None \<Rightarrow> a
      | Resolves (Some r) \<Rightarrow>
          if isSuccess r then
            pushToast success ''Transaction confirmed on blockchain!''
              (stopPolling i paymentId
                 (set_payments
                    (map (\<lambda>p. if matches paymentId txHash p
                              then p\<lparr>status := confirmed,
                                     confirmed_at := Some (toISOString ev (date_now ev))\<rparr>
                              else p) (payments a)) a))
          else
            pushToast error ''Transaction failed on blockchain''
              (stopPolling i paymentId
                 (set_payments
                    (map (\<lambda>p. if matches paymentId txHash p then p\<lparr>status := failed\<rparr> else p)
                       (payments a)) a)))"

text \<open>
  The \<open>next\<close> callback of a backend poll of the interval \<open>i\<close>; \<open>n\<close> is \<open>pollCount\<close>
  when the callback runs. The inner update of the signal is overwritten by the value
  the outer update returns.
\<close>

definition onPolledPayments :: "env \<Rightarrow> nat \<Rightarrow> string \<Rightarrow> string \<Rightarrow> nat \<Rightarrow> payment list \<Rightarrow> app \<Rightarrow> app" where
  "onPolledPayments ev i paymentId txHash n items a =
     (if items \<noteq> [] then
        (let a1 =
           (case find (matches paymentId txHash) items of
              None \<Rightarrow> if n \<ge> maxPolls then stopPolling i paymentId a else a
            | Some payment \<Rightarrow>
                if status payment \<noteq> pending then
                  (let a' = set_payments
                              (map (\<lambda>p. if matches paymentId txHash p then payment else p)
                                 (payments a))
                              (stopPolling i paymentId a)
                   in if status payment = confirmed then pushToast success ''Transaction confirmed!'' a'
                      else if status payment = failed then pushToast error ''Transaction failed'' a'
                      else a')
                else if n \<ge> maxPolls then stopPolling i paymentId a else a)
         in set_payments (take 10 (array_sort (byCreatedAtDesc (getTime ev)) items)) a1)
      else if n \<ge> maxPolls then stopPolling i paymentId a
      else a)"

text \<open>
  The interval callback itself: \<open>pollCount\<close> is incremented, the receipt is requested
  when a provider is injected and the transaction hash is not empty, and the recent
  payments are requested. It tests nothing and clears nothing; the answers arrive
  later. A cleared interval does not fire.
\<close>

definition interval_fire :: "nat \<Rightarrow> bool \<Rightarrow> app \<Rightarrow> app" where
  "interval_fire i has_provider a =
     (case intervals a i of
        None \<Rightarrow> a
      | Some pl \<Rightarrow>
          if running pl then
            (let a1 = a\<lparr>intervals := (intervals a)(i \<mapsto> pl\<lparr>pollCount := Suc (pollCount pl)\<rparr>)\<rparr>;
                 a2 = (if has_provider \<and> poll_txHash pl \<noteq> []
                       then emit (Request (Eth_getTransactionReceipt (poll_txHash pl))) a1
                       else a1)
             in emit GetRecentPayments a2)
          else a)"

text \<open>
  The arrival of the answer to a receipt request of the interval \<open>i\<close>: its \<open>then\<close> or
  \<open>catch\<close> callback runs, whether or not the interval has been cleared meanwhile.
\<close>

definition receipt_callback :: "env \<Rightarrow> nat \<Rightarrow> receipt option reply \<Rightarrow> app \<Rightarrow> app" where
  "receipt_callback ev i answer a =
     (case intervals a i of
        None \<Rightarrow> a
      | Some pl \<Rightarrow> onReceipt ev i (poll_paymentId pl) (poll_txHash pl) answer a)"

text \<open>
  The arrival of the answer to a request for the recent payments: the \<open>next\<close> or
  \<open>error\<close> callback runs and reads \<open>pollCount\<close> as it is then.
\<close>

definition backend_callback :: "env \<Rightarrow> nat \<Rightarrow> payments_response option observable \<Rightarrow> app \<Rightarrow> app" where
  "backend_callback ev i http a =
     (case intervals a i of
        None \<Rightarrow> a
      | Some pl \<Rightarrow>
          (case getRecentPayments http of
             Inr items \<Rightarrow>
               onPolledPayments ev i (poll_paymentId pl) (poll_txHash pl) (pollCount pl) items a
           | Inl e \<Rightarrow>
               if pollCount pl \<ge> maxPolls then stopPolling i (poll_paymentId pl) a else a))"

text \<open>
  What happens to an interval, one event after the other: it fires (with or without a
  provider injected at that moment), or the answer to one of its requests arrives.
\<close>

datatype poll_event =
    Fire bool
  | ReceiptAnswer "receipt option reply"
  | BackendAnswer "payments_response option observable"

definition poll_step :: "env \<Rightarrow> nat \<Rightarrow> poll_event \<Rightarrow> app \<Rightarrow> app" where
  "poll_step ev i e a =
     (case e of
        Fire has_provider \<Rightarrow> interval_fire i has_provider a
      | ReceiptAnswer answer \<Rightarrow> receipt_callback ev i answer a
      | BackendAnswer http \<Rightarrow> backend_callback ev i http a)"

fun run_poll_events :: "env \<Rightarrow> nat \<Rightarrow> poll_event list \<Rightarrow> app \<Rightarrow> app" where
  "run_poll_events ev i [] a = a"
| "run_poll_events ev i (e # es) a = run_poll_events ev i es (poll_step ev i e a)"

text \<open>
  What one tick receives when every answer arrives before the next firing: the
  provider's answer to the receipt request (\<open>None\<close> when no provider is injected) and
  the answer of the backend.
\<close>

record tick_input =
  tick_receipt :: "receipt option reply option"
  tick_http :: "payments_response option observable"

text \<open>
  One firing of the interval \<open>i\<close> in the schedule in which the answers to its two
  requests arrive before the next firing, the receipt's first.
\<close>

definition interval_tick :: "env \<Rightarrow> nat \<Rightarrow> tick_input \<Rightarrow> app \<Rightarrow> app" where
  "interval_tick ev i inp a =
     (case intervals a i of
        None \<Rightarrow> a
      | Some pl \<Rightarrow>
          if running pl then
            (case tick_receipt inp of
               None \<Rightarrow> backend_callback ev i (tick_http inp) (interval_fire i False a)
             | Some answer \<Rightarrow>
                 (let a1 = interval_fire i True a;
                      a2 = (if poll_txHash pl \<noteq> []
                            then receipt_callback ev i answer a1 else a1)
                  in backend_callback ev i (tick_http inp) a2))
          else a)"

fun run_ticks :: "env \<Rightarrow> nat \<Rightarrow> tick_input list \<Rightarrow> app \<Rightarrow> app" where
  "run_ticks ev i [] a = a"
| "run_ticks ev i (inp # inps) a = run_ticks ev i inps (interval_tick ev i inp a)"

section \<open>Callbacks of the createPaymentIntent subscription\<close>

text \<open>
  The body of the response to \<open>POST /payments\<close>: its \<open>payment\<close> member when it has
  one, and the response itself read as a payment, which \<open>response.payment || response\<close>
  falls back to.
\<close>

record create_response =
  resp_payment :: "pstatus option payment_rec option"
  resp_self :: "pstatus option payment_rec"

definition with_status :: "pstatus \<Rightarrow> 's payment_rec \<Rightarrow> payment" where
  "with_status s p =
     \<lparr>pid = pid p, amount = amount p, currency = currency p, status = s,
      to_address = to_address p, from_address = from_address p,
      transaction_hash = transaction_hash p, createdAt = createdAt p,
      confirmed_at = confirmed_at p, description = description p\<rparr>"

definition createPaymentIntent_next :: "env \<Rightarrow> env \<Rightarrow> subscriber \<Rightarrow> create_response \<Rightarrow> app \<Rightarrow> app" where
  "createPaymentIntent_next ctor ev sub response a =
     (let payment = (case resp_payment response of Some p \<Rightarrow> p | None \<Rightarrow> resp_self response);
          finalStatus = (if transactionConfirmed sub then confirmed
                         else (case status payment of Some s \<Rightarrow> s | None \<Rightarrow> pending));
          a1 = set_payments
                 (map (\<lambda>p. if pid p = sub_pendingId sub
                           then (with_status finalStatus payment)
                                  \<lparr>transaction_hash := Some (sub_txHash sub),
                                   confirmed_at :=
                                     (if finalStatus = confirmed
                                      then Some (toISOString ev (date_now ev))
                                      else confirmed_at payment)\<rparr>
                           else p) (payments a)) a;
          a2 = a1\<lparr>paymentForm := paymentForm_reset\<rparr>;
          a3 = loadRecentPayments ctor a2;
          finalPaymentId = (if pid payment = [] then sub_pendingId sub else pid payment)
      in if finalStatus = pending
         then startPaymentStatusPolling finalPaymentId (sub_txHash sub) a3 else a3)"

definition createPaymentIntent_error :: "subscriber \<Rightarrow> app \<Rightarrow> app" where
  "createPaymentIntent_error sub a =
     (let keep_pending =
            pushToast info
              ''Transaction sent but backend verification pending. Check transaction status later.''
              (updatePaymentStatus (sub_pendingId sub) pending
                 (Some ''Backend verification pending'') None a)
      in (case find (\<lambda>p. pid p = sub_pendingId sub) (payments a) of
            None \<Rightarrow> keep_pending
          | Some currentPayment \<Rightarrow>
              if status currentPayment = confirmed
              then pushToast info ''Transaction confirmed. Backend sync pending.'' a
              else keep_pending)
         \<lparr>submittingPayment := False\<rparr>)"

definition createPaymentIntent_complete :: "app \<Rightarrow> app" where
  "createPaymentIntent_complete a = a\<lparr>submittingPayment := False\<rparr>"

section \<open>The steps of a submission\<close>

text \<open>
  The five steps of the submission flow, read off the effects: the call of
  \<open>convertToWei\<close>, the two requests of the balance check, the submission of the
  transaction, the receipt requests, and the request to the backend.
\<close>

datatype step = WeiConversion | BalanceCheck | Submission | ReceiptPolling | BackendSync

fun step_of :: "effect \<Rightarrow> step option" where
  "step_of (ConvertToWei amt cur) = Some WeiConversion"
| "step_of (Request (Eth_getBalance who block)) = Some BalanceCheck"
| "step_of (Request Eth_gasPrice) = Some BalanceCheck"
| "step_of (Request (Eth_sendTransaction src dst val gas)) = Some Submission"
| "step_of (Request (Eth_getTransactionReceipt h)) = Some ReceiptPolling"
| "step_of (CreatePaymentIntent req sub) = Some BackendSync"
| "step_of (Toast t text) = None"
| "step_of (PaymentsWrite ps) = None"
| "step_of (Wait ms) = None"
| "step_of GetRecentPayments = None"

fun steps :: "effect list \<Rightarrow> step list" where
  "steps [] = []"
| "steps (e # tr) = (case step_of e of None \<Rightarrow> steps tr | Some s \<Rightarrow> s # steps tr)"

text \<open>The position of each step in the source text of \<open>submitPayment\<close>.\<close>

fun code_position :: "step \<Rightarrow> nat" where
  "code_position WeiConversion = 0"
| "code_position BalanceCheck = 1"
| "code_position Submission = 2"
| "code_position ReceiptPolling = 3"
| "code_position BackendSync = 4"

text \<open>The position of each step in the order that claim C1 states.\<close>

fun stated_position :: "step \<Rightarrow> nat" where
  "stated_position BalanceCheck = 0"
| "stated_position WeiConversion = 1"
| "stated_position Submission = 2"
| "stated_position ReceiptPolling = 3"
| "stated_position BackendSync = 4"

definition in_order :: "(step \<Rightarrow> nat) \<Rightarrow> effect list \<Rightarrow> bool" where
  "in_order pos tr = sorted (map pos (steps tr))"

text \<open>The callbacks subscribed to \<open>createPaymentIntent\<close>, by their captured variables.\<close>

fun subscribers :: "effect list \<Rightarrow> subscriber list" where
  "subscribers [] = []"
| "subscribers (CreatePaymentIntent req sub # tr) = sub # subscribers tr"
| "subscribers (e # tr) = subscribers tr"

text \<open>The durations of the timer waits among the effects.\<close>

fun waits :: "effect list \<Rightarrow> nat list" where
  "waits [] = []"
| "waits (Wait ms # tr) = ms # waits tr"
| "waits (e # tr) = waits tr"

section \<open>A sample run\<close>

text \<open>
  A wallet holding 0.001 ETH (\<open>0x38d7ea4c68000\<close> wei) at a gas price of 1 gwei
  sends 0.011 ETH. The double-precision product \<open>0.011 * 1e18\<close> is
  \<open>11000000000000000\<close>, whose radix-16 text \<open>27147114878000\<close> has decimal digits only.
  The transaction is accepted and its receipt arrives, with success status, at the third
  request.
\<close>

definition sample_provider :: ethereumProvider where
  "sample_provider =
     \<lparr>wallet_requestPermissions = Resolves (),
      eth_requestAccounts = Resolves (Some [''0x52908400098527886E0F7030069857D2E4169EE7'']),
      eth_chainId = Resolves (Some ''0x1''),
      eth_getBalance = Resolves ''0x38d7ea4c68000'',
      eth_gasPrice = Resolves ''0x3b9aca00'',
      eth_sendTransaction = Resolves ''0x88df016429689c079f3b2f6ad39fa052532c56795b733da78a91ebe6a713944b'',
      eth_getTransactionReceipt =
        (\<lambda>k. if k < 2 then Resolves None else Resolves (Some \<lparr>receipt_status = JString ''0x1''\<rparr>))\<rparr>"

definition sample_env :: env where
  "sample_env =
     \<lparr>browser = \<lparr>ethereum = Some sample_provider, localStorage = Map.empty\<rparr>,
      date_now = 1700000000000,
      toISOString = (\<lambda>_. ''2023-11-14T22:13:20.000Z''),
      getTime = (\<lambda>_. Some 1700000000000)\<rparr>"

text \<open>The same surroundings with other answers to the receipt requests.\<close>

definition sample_env_with :: "(nat \<Rightarrow> receipt option reply) \<Rightarrow> env" where
  "sample_env_with answers =
     sample_env\<lparr>browser :=
       \<lparr>ethereum = Some (sample_provider\<lparr>eth_getTransactionReceipt := answers\<rparr>),
        localStorage = Map.empty\<rparr>\<rparr>"

definition sample_app :: app where
  "sample_app =
     \<lparr>walletState = \<lparr>connected = True,
                     ws_address = Some ''0x52908400098527886E0F7030069857D2E4169EE7'',
                     ws_networkName = Some ''Ethereum Mainnet'', ws_chainId = Some ''0x1'',
                     balance = Some ''0.0010''\<rparr>,
      payments = [],
      submittingPayment = False,
      paymentForm = \<lparr>f_amount = ''0.011'', f_amount_valid = True, f_currency = ''ETH'',
                     recipientWallet = ''0x8617E340B3D01FA5F11F306F4090FD50E238070D'',
                     phoneSearch = [], reference = [], memo = []\<rparr>,
      isAuthenticated = True,
      paymentPollingIntervals = Map.empty,
      intervals = Map.empty,
      lastInterval = 0,
      effects = []\<rparr>"

section \<open>Properties\<close>

declare toHex.simps [simp del]
declare toDecimal.simps [simp del]
declare pollReceipt.simps [simp del]

subsection \<open>Hexadecimal printing and parsing\<close>










subsection \<open>Double precision, evaluated\<close>

declare bitLength.simps [simp del]

lemmas double_defs = toDouble_def roundPositive_def roundHalfEven_def floorLog2_def pow2_def
  negate_def Let_def bitLength.simps

lemmas parse_defs = parseFloat_def exponentPart_def decimalValue_def isDigit_def charCode_def
  isWhiteSpace_def startsWith_def pow10_def

lemmas arith_defs = times_def scaleInfinity_def literal_1e18_def

lemmas bigint_defs = Math_floor_def BigInt_number_def RangeError_def numberName_def
  new_Error_def toString16_def toHex.simps hexDigit_def

text \<open>
  The floor of a finite number is integral, so in \<open>BigInt(Math.floor(x))\<close> only \<open>NaN\<close>
  and the infinities make \<open>BigInt\<close> throw.
\<close>

lemma BigInt_floor:
  "BigInt_number (Math_floor n) =
     (case n of Finite x \<Rightarrow> Inr \<lfloor>x\<rfloor> | other \<Rightarrow> Inl (RangeError other))"
  by (simp add: BigInt_number_def Math_floor_def split: number.splits)

lemma parseFloat_0011: "parseFloat ''0.011'' = toDouble (11 / 1000)"
  by (simp add: parse_defs Let_def)

lemma toDouble_0011: "toDouble (11 / 1000) = Finite (3170534137668829 / 2 ^ 58)"
  by (simp add: double_defs)

lemma times_0011:
  "times (Finite (3170534137668829 / 2 ^ 58)) literal_1e18 = Finite 11000000000000000"
  by (simp add: arith_defs double_defs)







lemma parseFloat_025: "parseFloat ''0.25'' = toDouble (25 / 100)"
  by (simp add: parse_defs Let_def)

lemma toDouble_025: "toDouble (25 / 100) = Finite (1 / 4)"
  by (simp add: double_defs)

lemma times_025: "times (Finite (1 / 4)) literal_1e18 = Finite 250000000000000000"
  by (simp add: arith_defs double_defs)




text \<open>
  C7, as stated, fails: with a provider present and a non-empty account list returned
  by \<open>eth_requestAccounts\<close>, a rejected \<open>eth_chainId\<close> request makes \<open>connectWallet\<close>
  throw, and nothing is persisted.
\<close>

theorem connectWallet_chainId_rejected:
  "provider (Some \<lparr>ethereum = Some
       \<lparr>wallet_requestPermissions = Resolves (),
        eth_requestAccounts = Resolves (Some [''0x52908400098527886E0F7030069857D2E4169EE7'']),
        eth_chainId = Rejects \<lparr>code = Some 4900, message = ''The provider is disconnected''\<rparr>,
        eth_getBalance = Resolves ''0x0'', eth_gasPrice = Resolves ''0x0'',
        eth_sendTransaction = Resolves ''0x0'',
        eth_getTransactionReceipt = (\<lambda>_. Resolves None)\<rparr>,
      localStorage = Map.empty\<rparr>) \<noteq> None \<and>
   connectWallet True (Some \<lparr>ethereum = Some
       \<lparr>wallet_requestPermissions = Resolves (),
        eth_requestAccounts = Resolves (Some [''0x52908400098527886E0F7030069857D2E4169EE7'']),
        eth_chainId = Rejects \<lparr>code = Some 4900, message = ''The provider is disconnected''\<rparr>,
        eth_getBalance = Resolves ''0x0'', eth_gasPrice = Resolves ''0x0'',
        eth_sendTransaction = Resolves ''0x0'',
        eth_getTransactionReceipt = (\<lambda>_. Resolves None)\<rparr>,
      localStorage = Map.empty\<rparr>)
   = (Inl \<lparr>code = Some 4900, message = ''The provider is disconnected''\<rparr>,
      Some \<lparr>ethereum = Some
       \<lparr>wallet_requestPermissions = Resolves (),
        eth_requestAccounts = Resolves (Some [''0x52908400098527886E0F7030069857D2E4169EE7'']),
        eth_chainId = Rejects \<lparr>code = Some 4900, message = ''The provider is disconnected''\<rparr>,
        eth_getBalance = Resolves ''0x0'', eth_gasPrice = Resolves ''0x0'',
        eth_sendTransaction = Resolves ''0x0'',
        eth_getTransactionReceipt = (\<lambda>_. Resolves None)\<rparr>,
      localStorage = Map.empty\<rparr>)"
  by (simp add: connectWallet_def ensureProvider_def provider_def requestPermissions_def)

text \<open>
  A lower-cased text holds no capital letter, so of the members of \<open>Object.prototype\<close>
  only \<open>constructor\<close> and \<open>__proto__\<close> can be the index.
\<close>

lemma lowerOf_not_upper: "lowerOf c \<notin> set ''ABCDEFGHIJKLMNOPQRSTUVWXYZ''"
  by (simp add: lowerOf_def)

lemma toLowerCase_no_upper:
  assumes "u \<in> set ''ABCDEFGHIJKLMNOPQRSTUVWXYZ''" and "u \<in> set s"
  shows "toLowerCase c \<noteq> s"
proof
  assume "toLowerCase c = s"
  with assms(2) have "u \<in> lowerOf ` set c" by (auto simp: toLowerCase_def)
  then obtain x where "u = lowerOf x" by blast
  with assms(1) lowerOf_not_upper[of x] show False by simp
qed

lemma toLowerCase_prototype:
  "toLowerCase c \<in> set Object_prototype \<longleftrightarrow>
   toLowerCase c = ''constructor'' \<or> toLowerCase c = ''__proto__''"
  using toLowerCase_no_upper[of "CHR ''O''" "''hasOwnProperty''" c]
    toLowerCase_no_upper[of "CHR ''P''" "''isPrototypeOf''" c]
    toLowerCase_no_upper[of "CHR ''I''" "''propertyIsEnumerable''" c]
    toLowerCase_no_upper[of "CHR ''L''" "''toLocaleString''" c]
    toLowerCase_no_upper[of "CHR ''S''" "''toString''" c]
    toLowerCase_no_upper[of "CHR ''O''" "''valueOf''" c]
    toLowerCase_no_upper[of "CHR ''G''" "''__defineGetter__''" c]
    toLowerCase_no_upper[of "CHR ''S''" "''__defineSetter__''" c]
    toLowerCase_no_upper[of "CHR ''G''" "''__lookupGetter__''" c]
    toLowerCase_no_upper[of "CHR ''S''" "''__lookupSetter__''" c]
  by (auto simp: Object_prototype_def)

text \<open>
  C7, amended. \<open>connectWallet\<close> throws when no provider is present. With a provider
  \<open>p\<close>: when the account selection is forced and \<open>wallet_requestPermissions\<close> is
  rejected with code 4001, it throws; any other rejection of that request is ignored,
  and then a rejection of \<open>eth_requestAccounts\<close> or of \<open>eth_chainId\<close> is thrown on, an
  empty or missing account list makes it throw, and otherwise it returns the connection
  whose address is the first account and whose network name is the entry of
  \<open>NETWORK_MAP\<close> for the lower-cased chain id, the member inherited from
  \<open>Object.prototype\<close> when that id is \<open>constructor\<close> or \<open>__proto__\<close>, and
  \<open>Unknown Network\<close> in every other case, and the address is stored under the key
  \<open>walletAddress\<close>. Whenever it throws, local storage is unchanged.
\<close>

theorem connectWallet_spec:
  "(w = None \<or> (\<exists>win0. w = Some win0 \<and> ethereum win0 = None) \<longrightarrow>
      connectWallet force w =
        (Inl (new_Error ''MetaMask was not detected. Please install or enable it in your browser.''),
         w)) \<and>
   (w = Some win \<and> ethereum win = Some p \<longrightarrow>
      (force \<and> wallet_requestPermissions p = Rejects e1 \<and> code e1 = Some 4001 \<longrightarrow>
         connectWallet force w =
           (Inl (new_Error ''Account selection was rejected. Please select an account to continue.''),
            w)) \<and>
      ((force \<longrightarrow> (\<forall>e. wallet_requestPermissions p = Rejects e \<longrightarrow> code e \<noteq> Some 4001)) \<longrightarrow>
         (eth_requestAccounts p = Rejects e2 \<longrightarrow> connectWallet force w = (Inl e2, w)) \<and>
         (eth_requestAccounts p = Resolves None \<or> eth_requestAccounts p = Resolves (Some []) \<longrightarrow>
            connectWallet force w =
              (Inl (new_Error ''No accounts selected. Please select an account in MetaMask.''), w)) \<and>
         (eth_requestAccounts p = Resolves (Some (acct # others)) \<longrightarrow>
            (eth_chainId p = Rejects e3 \<longrightarrow> connectWallet force w = (Inl e3, w)) \<and>
            (eth_chainId p = Resolves cid \<longrightarrow>
               connectWallet force w =
                 (Inr \<lparr>address = acct, chainId = cid,
                       networkName =
                         (let key = (case cid of None \<Rightarrow> [] | Some c \<Rightarrow> toLowerCase c)
                          in case NETWORK_MAP key of
                               Some nm \<Rightarrow> Text nm
                             | None \<Rightarrow>
                                 if key = ''constructor'' \<or> key = ''__proto__''
                                 then PrototypeMember key
                                 else Text ''Unknown Network'')\<rparr>,
                  Some (win\<lparr>localStorage := (localStorage win)(''walletAddress'' \<mapsto> acct)\<rparr>)))))) \<and>
   (\<forall>e w'. connectWallet force w = (Inl e, w') \<longrightarrow> w' = w)"
proof -
  have absent: "w = None \<or> (\<exists>win0. w = Some win0 \<and> ethereum win0 = None) \<longrightarrow>
      connectWallet force w =
        (Inl (new_Error ''MetaMask was not detected. Please install or enable it in your browser.''),
         w)"
    by (auto simp: connectWallet_def ensureProvider_def provider_def)
  have unchanged: "\<forall>e w'. connectWallet force w = (Inl e, w') \<longrightarrow> w' = w"
    by (auto simp: connectWallet_def split: option.splits sum.splits reply.splits list.splits)
  have present: "w = Some win \<and> ethereum win = Some p \<longrightarrow>
      (force \<and> wallet_requestPermissions p = Rejects e1 \<and> code e1 = Some 4001 \<longrightarrow>
         connectWallet force w =
           (Inl (new_Error ''Account selection was rejected. Please select an account to continue.''),
            w)) \<and>
      ((force \<longrightarrow> (\<forall>e. wallet_requestPermissions p = Rejects e \<longrightarrow> code e \<noteq> Some 4001)) \<longrightarrow>
         (eth_requestAccounts p = Rejects e2 \<longrightarrow> connectWallet force w = (Inl e2, w)) \<and>
         (eth_requestAccounts p = Resolves None \<or> eth_requestAccounts p = Resolves (Some []) \<longrightarrow>
            connectWallet force w =
              (Inl (new_Error ''No accounts selected. Please select an account in MetaMask.''), w)) \<and>
         (eth_requestAccounts p = Resolves (Some (acct # others)) \<longrightarrow>
            (eth_chainId p = Rejects e3 \<longrightarrow> connectWallet force w = (Inl e3, w)) \<and>
            (eth_chainId p = Resolves cid \<longrightarrow>
               connectWallet force w =
                 (Inr \<lparr>address = acct, chainId = cid, networkName = networkNameOf cid\<rparr>,
                  Some (win\<lparr>localStorage := (localStorage win)(''walletAddress'' \<mapsto> acct)\<rparr>)))))"
  proof (intro impI, elim conjE)
    assume w: "w = Some win" and p: "ethereum win = Some p"
    then have ep: "ensureProvider w = Inr p"
      by (simp add: ensureProvider_def provider_def)
    have rejected: "force \<and> wallet_requestPermissions p = Rejects e1 \<and> code e1 = Some 4001 \<longrightarrow>
         connectWallet force w =
           (Inl (new_Error ''Account selection was rejected. Please select an account to continue.''),
            w)"
      by (simp add: connectWallet_def ep requestPermissions_def)
    have passed: "(force \<longrightarrow> (\<forall>e. wallet_requestPermissions p = Rejects e \<longrightarrow> code e \<noteq> Some 4001))
        \<longrightarrow> requestPermissions force p = None"
      by (auto simp: requestPermissions_def split: reply.splits)
    have rest: "requestPermissions force p = None \<longrightarrow>
         (eth_requestAccounts p = Rejects e2 \<longrightarrow> connectWallet force w = (Inl e2, w)) \<and>
         (eth_requestAccounts p = Resolves None \<or> eth_requestAccounts p = Resolves (Some []) \<longrightarrow>
            connectWallet force w =
              (Inl (new_Error ''No accounts selected. Please select an account in MetaMask.''), w)) \<and>
         (eth_requestAccounts p = Resolves (Some (acct # others)) \<longrightarrow>
            (eth_chainId p = Rejects e3 \<longrightarrow> connectWallet force w = (Inl e3, w)) \<and>
            (eth_chainId p = Resolves cid \<longrightarrow>
               connectWallet force w =
                 (Inr \<lparr>address = acct, chainId = cid, networkName = networkNameOf cid\<rparr>,
                  Some (win\<lparr>localStorage := (localStorage win)(''walletAddress'' \<mapsto> acct)\<rparr>))))"
      using w p
      by (auto simp: connectWallet_def ensureProvider_def provider_def persistWalletAddress_def
          WALLET_ADDRESS_KEY_def)
    from rejected passed rest
    show "(force \<and> wallet_requestPermissions p = Rejects e1 \<and> code e1 = Some 4001 \<longrightarrow>
         connectWallet force w =
           (Inl (new_Error ''Account selection was rejected. Please select an account to continue.''),
            w)) \<and>
      ((force \<longrightarrow> (\<forall>e. wallet_requestPermissions p = Rejects e \<longrightarrow> code e \<noteq> Some 4001)) \<longrightarrow>
         (eth_requestAccounts p = Rejects e2 \<longrightarrow> connectWallet force w = (Inl e2, w)) \<and>
         (eth_requestAccounts p = Resolves None \<or> eth_requestAccounts p = Resolves (Some []) \<longrightarrow>
            connectWallet force w =
              (Inl (new_Error ''No accounts selected. Please select an account in MetaMask.''), w)) \<and>
         (eth_requestAccounts p = Resolves (Some (acct # others)) \<longrightarrow>
            (eth_chainId p = Rejects e3 \<longrightarrow> connectWallet force w = (Inl e3, w)) \<and>
            (eth_chainId p = Resolves cid \<longrightarrow>
               connectWallet force w =
                 (Inr \<lparr>address = acct, chainId = cid, networkName = networkNameOf cid\<rparr>,
                  Some (win\<lparr>localStorage := (localStorage win)(''walletAddress'' \<mapsto> acct)\<rparr>)))))"
      by blast
  qed
  have name: "networkNameOf cid =
     (let key = (case cid of None \<Rightarrow> [] | Some c \<Rightarrow> toLowerCase c)
      in case NETWORK_MAP key of
           Some nm \<Rightarrow> Text nm
         | None \<Rightarrow>
             if key = ''constructor'' \<or> key = ''__proto__'' then PrototypeMember key
             else Text ''Unknown Network'')"
  proof (cases cid)
    case None
    then show ?thesis
      by (simp add: networkNameOf_def NETWORK_MAP_at_def NETWORK_MAP_def Object_prototype_def)
  next
    case (Some c)
    then show ?thesis
      using toLowerCase_prototype[of c]
      by (simp add: networkNameOf_def NETWORK_MAP_at_def Let_def split: option.splits)
  qed
  from absent present unchanged show ?thesis
    unfolding name by blast
qed

theorem connectWallet_spec_witness:
  "connectWallet True
     (Some \<lparr>ethereum = Some (sample_provider
               \<lparr>wallet_requestPermissions :=
                  Rejects \<lparr>code = Some (- 32002), message = ''Request already pending''\<rparr>,
                eth_chainId := Resolves (Some ''0xAA36A7'')\<rparr>),
            localStorage = Map.empty\<rparr>)
   = (Inr \<lparr>address = ''0x52908400098527886E0F7030069857D2E4169EE7'',
           chainId = Some ''0xAA36A7'', networkName = Text ''Sepolia Testnet''\<rparr>,
      Some \<lparr>ethereum = Some (sample_provider
               \<lparr>wallet_requestPermissions :=
                  Rejects \<lparr>code = Some (- 32002), message = ''Request already pending''\<rparr>,
                eth_chainId := Resolves (Some ''0xAA36A7'')\<rparr>),
            localStorage = [''walletAddress'' \<mapsto> ''0x52908400098527886E0F7030069857D2E4169EE7'']\<rparr>) \<and>
   fst (connectWallet False
     (Some \<lparr>ethereum = Some (sample_provider\<lparr>eth_chainId := Resolves (Some ''CONSTRUCTOR'')\<rparr>),
            localStorage = Map.empty\<rparr>))
   = Inr \<lparr>address = ''0x52908400098527886E0F7030069857D2E4169EE7'',
          chainId = Some ''CONSTRUCTOR'', networkName = PrototypeMember ''constructor''\<rparr> \<and>
   fst (connectWallet False
     (Some \<lparr>ethereum = Some (sample_provider\<lparr>eth_chainId := Resolves (Some ''0x539'')\<rparr>),
            localStorage = Map.empty\<rparr>))
   = Inr \<lparr>address = ''0x52908400098527886E0F7030069857D2E4169EE7'',
          chainId = Some ''0x539'', networkName = Text ''Unknown Network''\<rparr> \<and>
   connectWallet True
     (Some \<lparr>ethereum = Some (sample_provider
               \<lparr>wallet_requestPermissions :=
                  Rejects \<lparr>code = Some 4001, message = ''User rejected the request.''\<rparr>\<rparr>),
            localStorage = Map.empty\<rparr>)
   = (Inl \<lparr>code = None,
           message = ''Account selection was rejected. Please select an account to continue.''\<rparr>,
      Some \<lparr>ethereum = Some (sample_provider
               \<lparr>wallet_requestPermissions :=
                  Rejects \<lparr>code = Some 4001, message = ''User rejected the request.''\<rparr>\<rparr>),
            localStorage = Map.empty\<rparr>)"
proof -
  let ?busy = "sample_provider
      \<lparr>wallet_requestPermissions :=
         Rejects \<lparr>code = Some (- 32002), message = ''Request already pending''\<rparr>,
       eth_chainId := Resolves (Some ''0xAA36A7'')\<rparr>"
  let ?ctor = "sample_provider\<lparr>eth_chainId := Resolves (Some ''CONSTRUCTOR'')\<rparr>"
  let ?local = "sample_provider\<lparr>eth_chainId := Resolves (Some ''0x539'')\<rparr>"
  let ?refused = "sample_provider
      \<lparr>wallet_requestPermissions :=
         Rejects \<lparr>code = Some 4001, message = ''User rejected the request.''\<rparr>\<rparr>"
  let ?acct = "''0x52908400098527886E0F7030069857D2E4169EE7''"
  have swallowed: "True \<longrightarrow> (\<forall>e. wallet_requestPermissions ?busy = Rejects e \<longrightarrow> code e \<noteq> Some 4001)"
    by (simp add: sample_provider_def)
  have busy: "eth_requestAccounts ?busy = Resolves (Some (?acct # []))"
      "eth_chainId ?busy = Resolves (Some ''0xAA36A7'')"
    by (simp_all add: sample_provider_def)
  from connectWallet_spec
    [of "Some \<lparr>ethereum = Some ?busy, localStorage = Map.empty\<rparr>"
        True "\<lparr>ethereum = Some ?busy, localStorage = Map.empty\<rparr>" ?busy _ _ ?acct "[]" _
        "Some ''0xAA36A7''"]
    swallowed busy
  have c1: "connectWallet True (Some \<lparr>ethereum = Some ?busy, localStorage = Map.empty\<rparr>) =
      (Inr \<lparr>address = ?acct, chainId = Some ''0xAA36A7'',
            networkName =
              (let key = (case Some ''0xAA36A7'' of None \<Rightarrow> [] | Some c \<Rightarrow> toLowerCase c)
               in case NETWORK_MAP key of
                    Some nm \<Rightarrow> Text nm
                  | None \<Rightarrow>
                      if key = ''constructor'' \<or> key = ''__proto__''
                      then PrototypeMember key
                      else Text ''Unknown Network'')\<rparr>,
       Some (\<lparr>ethereum = Some ?busy, localStorage = Map.empty\<rparr>
               \<lparr>localStorage := (localStorage \<lparr>ethereum = Some ?busy, localStorage = Map.empty\<rparr>)
                  (''walletAddress'' \<mapsto> ?acct)\<rparr>))"
    by simp
  have ctor: "eth_requestAccounts ?ctor = Resolves (Some (?acct # []))"
      "eth_chainId ?ctor = Resolves (Some ''CONSTRUCTOR'')"
    by (simp_all add: sample_provider_def)
  from connectWallet_spec
    [of "Some \<lparr>ethereum = Some ?ctor, localStorage = Map.empty\<rparr>"
        False "\<lparr>ethereum = Some ?ctor, localStorage = Map.empty\<rparr>" ?ctor _ _ ?acct "[]" _
        "Some ''CONSTRUCTOR''"]
    ctor
  have c2: "connectWallet False (Some \<lparr>ethereum = Some ?ctor, localStorage = Map.empty\<rparr>) =
      (Inr \<lparr>address = ?acct, chainId = Some ''CONSTRUCTOR'',
            networkName =
              (let key = (case Some ''CONSTRUCTOR'' of None \<Rightarrow> [] | Some c \<Rightarrow> toLowerCase c)
               in case NETWORK_MAP key of
                    Some nm \<Rightarrow> Text nm
                  | None \<Rightarrow>
                      if key = ''constructor'' \<or> key = ''__proto__''
                      then PrototypeMember key
                      else Text ''Unknown Network'')\<rparr>,
       Some (\<lparr>ethereum = Some ?ctor, localStorage = Map.empty\<rparr>
               \<lparr>localStorage := (localStorage \<lparr>ethereum = Some ?ctor, localStorage = Map.empty\<rparr>)
                  (''walletAddress'' \<mapsto> ?acct)\<rparr>))"
    by simp
  have local: "eth_requestAccounts ?local = Resolves (Some (?acct # []))"
      "eth_chainId ?local = Resolves (Some ''0x539'')"
    by (simp_all add: sample_provider_def)
  from connectWallet_spec
    [of "Some \<lparr>ethereum = Some ?local, localStorage = Map.empty\<rparr>"
        False "\<lparr>ethereum = Some ?local, localStorage = Map.empty\<rparr>" ?local _ _ ?acct "[]" _
        "Some ''0x539''"]
    local
  have c3: "connectWallet False (Some \<lparr>ethereum = Some ?local, localStorage = Map.empty\<rparr>) =
      (Inr \<lparr>address = ?acct, chainId = Some ''0x539'',
            networkName =
              (let key = (case Some ''0x539'' of None \<Rightarrow> [] | Some c \<Rightarrow> toLowerCase c)
               in case NETWORK_MAP key of
                    Some nm \<Rightarrow> Text nm
                  | None \<Rightarrow>
                      if key = ''constructor'' \<or> key = ''__proto__''
                      then PrototypeMember key
                      else Text ''Unknown Network'')\<rparr>,
       Some (\<lparr>ethereum = Some ?local, localStorage = Map.empty\<rparr>
               \<lparr>localStorage := (localStorage \<lparr>ethereum = Some ?local, localStorage = Map.empty\<rparr>)
                  (''walletAddress'' \<mapsto> ?acct)\<rparr>))"
    by simp
  have refused: "wallet_requestPermissions ?refused
        = Rejects \<lparr>code = Some 4001, message = ''User rejected the request.''\<rparr>"
      "code \<lparr>code = Some 4001, message = ''User rejected the request.''\<rparr> = Some 4001"
    by (simp_all add: sample_provider_def)
  from connectWallet_spec
    [of "Some \<lparr>ethereum = Some ?refused, localStorage = Map.empty\<rparr>"
        True "\<lparr>ethereum = Some ?refused, localStorage = Map.empty\<rparr>" ?refused
        "\<lparr>code = Some 4001, message = ''User rejected the request.''\<rparr>"]
    refused
  have c4: "connectWallet True (Some \<lparr>ethereum = Some ?refused, localStorage = Map.empty\<rparr>) =
      (Inl (new_Error ''Account selection was rejected. Please select an account to continue.''),
       Some \<lparr>ethereum = Some ?refused, localStorage = Map.empty\<rparr>)"
    by simp
  have k1: "toLowerCase ''0xAA36A7'' = ''0xaa36a7''"
    by (simp add: toLowerCase_def lowerOf_def)
  have k2: "toLowerCase ''CONSTRUCTOR'' = ''constructor''"
    by (simp add: toLowerCase_def lowerOf_def)
  have k3: "toLowerCase ''0x539'' = ''0x539''"
    by (simp add: toLowerCase_def lowerOf_def)
  from c1 c2 c3 c4 show ?thesis
    by (simp add: k1 k2 k3 NETWORK_MAP_def new_Error_def)
qed


text \<open>
  C9. \<open>getRecentPayments\<close> never delivers an error: a failed request gives the empty
  list, a response without a \<open>payments\<close> member gives the empty list, and any other
  response gives exactly its \<open>payments\<close> array.
\<close>

theorem getRecentPayments_total:
  "(\<exists>items. getRecentPayments http_get = Inr items) \<and>
   getRecentPayments (Inl e) = Inr [] \<and>
   getRecentPayments (Inr (Some \<lparr>payments_field = None\<rparr>)) = Inr [] \<and>
   getRecentPayments (Inr (Some \<lparr>payments_field = Some ps\<rparr>)) = Inr ps"
  by (simp add: getRecentPayments_def catchError_def map_rx_def of_rx_def payments_or_empty_def
      split: sum.splits option.splits)

subsection \<open>The receipt loop\<close>

lemmas prim_defs = emit_def set_payments_def pushToast_def updatePaymentStatus_def createIntent_def
lemmas flow_defs = submitPayment_def insertPending_def submit_try_def sendTransaction_def settle_def

lemma steps_append [simp]: "steps (t @ u) = steps t @ steps u"
  by (induction t) (auto split: option.splits)

lemma steps_pollReceipt:
  "\<exists>n. steps (snd (pollReceipt answers tx k)) = replicate n ReceiptPolling \<and>
       n \<le> maxAttempts - k \<and> (k < maxAttempts \<longrightarrow> 1 \<le> n)"
proof (induction answers tx k rule: pollReceipt.induct)
  case (1 answers tx k)
  show ?case
  proof (cases "k < maxAttempts")
    case False
    then show ?thesis by (subst pollReceipt.simps) simp
  next
    case True
    show ?thesis
    proof (cases "receipt_of (answers k)")
      case None
      from 1[OF True None] obtain n where
        n: "steps (snd (pollReceipt answers tx (Suc k))) = replicate n ReceiptPolling"
           "n \<le> maxAttempts - Suc k" by blast
      show ?thesis
        apply (subst pollReceipt.simps)
        apply (rule exI[of _ "Suc n"])
        using True None n by (simp add: Let_def)
    next
      case (Some r)
      show ?thesis
        apply (subst pollReceipt.simps)
        apply (rule exI[of _ "Suc 0"])
        using True Some by simp
    qed
  qed
qed

lemma pollReceipt_fst_Some:
  "fst (pollReceipt answers tx k) = Some r \<Longrightarrow>
     \<exists>j. k \<le> j \<and> j < maxAttempts \<and> receipt_of (answers j) = Some r \<and>
         (\<forall>i. k \<le> i \<and> i < j \<longrightarrow> receipt_of (answers i) = None)"
proof (induction answers tx k rule: pollReceipt.induct)
  case (1 answers tx k)
  show ?case
  proof (cases "k < maxAttempts")
    case False
    with 1(2) show ?thesis by (subst (asm) pollReceipt.simps) simp
  next
    case True
    show ?thesis
    proof (cases "receipt_of (answers k)")
      case None
      with True 1(2) have "fst (pollReceipt answers tx (Suc k)) = Some r"
        by (subst (asm) pollReceipt.simps) (simp add: Let_def)
      from 1(1)[OF True None this] obtain j where
        j: "Suc k \<le> j" "j < maxAttempts" "receipt_of (answers j) = Some r"
           "\<forall>i. Suc k \<le> i \<and> i < j \<longrightarrow> receipt_of (answers i) = None" by blast
      have "\<forall>i. k \<le> i \<and> i < j \<longrightarrow> receipt_of (answers i) = None"
      proof (intro allI impI)
        fix i assume "k \<le> i \<and> i < j"
        then show "receipt_of (answers i) = None"
          using j(4) None by (cases "i = k") auto
      qed
      with j show ?thesis by (intro exI[of _ j]) simp
    next
      case (Some r')
      with True 1(2) have "r' = r" by (subst (asm) pollReceipt.simps) simp
      with True Some show ?thesis by (intro exI[of _ k]) auto
    qed
  qed
qed

lemma pollReceipt_fst_None:
  "fst (pollReceipt answers tx k) = None \<Longrightarrow>
     (\<forall>i. k \<le> i \<and> i < maxAttempts \<longrightarrow> receipt_of (answers i) = None)"
proof (induction answers tx k rule: pollReceipt.induct)
  case (1 answers tx k)
  show ?case
  proof (cases "k < maxAttempts")
    case False
    then show ?thesis by auto
  next
    case True
    show ?thesis
    proof (cases "receipt_of (answers k)")
      case None
      with True 1(2) have "fst (pollReceipt answers tx (Suc k)) = None"
        by (subst (asm) pollReceipt.simps) (simp add: Let_def)
      from 1(1)[OF True None this] have
        later: "\<forall>i. Suc k \<le> i \<and> i < maxAttempts \<longrightarrow> receipt_of (answers i) = None" .
      show ?thesis
      proof (intro allI impI)
        fix i assume "k \<le> i \<and> i < maxAttempts"
        then show "receipt_of (answers i) = None"
          using later None by (cases "i = k") auto
      qed
    next
      case (Some r')
      with True 1(2) show ?thesis by (subst (asm) pollReceipt.simps) simp
    qed
  qed
qed

text \<open>The receipt the loop ends with, read off the provider's answers.\<close>

lemma pollReceipt_none:
  assumes "\<forall>j<maxAttempts. receipt_of (answers j) = None"
  shows "fst (pollReceipt answers tx 0) = None"
proof (cases "fst (pollReceipt answers tx 0)")
  case None then show ?thesis .
next
  case (Some r)
  from pollReceipt_fst_Some[OF Some] assms show ?thesis by auto
qed

lemma pollReceipt_first:
  assumes "j < maxAttempts" "receipt_of (answers j) = Some r"
    "\<forall>i<j. receipt_of (answers i) = None"
  shows "fst (pollReceipt answers tx 0) = Some r"
proof (cases "fst (pollReceipt answers tx 0)")
  case None
  from pollReceipt_fst_None[OF None] assms show ?thesis by auto
next
  case (Some r')
  from pollReceipt_fst_Some[OF Some] obtain j' where
    j': "j' < maxAttempts" "receipt_of (answers j') = Some r'"
        "\<forall>i. i < j' \<longrightarrow> receipt_of (answers i) = None" by auto
  have "j = j'"
  proof (rule ccontr)
    assume "j \<noteq> j'"
    then consider "j < j'" | "j' < j" by linarith
    then show False using assms j' by cases auto
  qed
  with assms j' Some show ?thesis by simp
qed


subsection \<open>The shape of a submission\<close>

lemma poll_steps_sorted: "sorted (map pos (steps (snd (pollReceipt answers tx k))))"
  using steps_pollReceipt[of answers tx k] by auto

lemma poll_steps_count: "count_list (steps (snd (pollReceipt answers tx 0))) ReceiptPolling \<le> 60"
proof -
  obtain n where n: "steps (snd (pollReceipt answers tx 0)) = replicate n ReceiptPolling" "n \<le> maxAttempts"
    using steps_pollReceipt[of answers tx 0] by auto
  have "count_list (replicate n ReceiptPolling) ReceiptPolling = n" by (induction n) auto
  with n show ?thesis by (simp add: maxAttempts_def)
qed

lemma balance_steps:
  "steps (snd (balanceCheck p wa hex)) = [BalanceCheck] \<or>
   steps (snd (balanceCheck p wa hex)) = [BalanceCheck, BalanceCheck]"
  by (simp add: balanceCheck_def Let_def split: reply.splits option.splits)

lemma balance_steps_sorted: "sorted (map pos (steps (snd (balanceCheck p wa hex))))"
  using balance_steps[of p wa hex] by auto

lemma poll_steps_set [simp]: "set (steps (snd (pollReceipt answers tx 0))) = {ReceiptPolling}"
  using steps_pollReceipt[of answers tx 0] by (auto simp: maxAttempts_def)

lemma balance_steps_set [simp]: "set (steps (snd (balanceCheck p wa hex))) = {BalanceCheck}"
  using balance_steps[of p wa hex] by auto

lemma submitPayment_steps:
  assumes "\<not> paymentForm_invalid (paymentForm a)" and "connected (walletState a)"
  shows "steps (new_effects a (submitPayment ev a)) =
    (case ethereum (browser ev) of
       None \<Rightarrow> []
     | Some p \<Rightarrow>
         WeiConversion #
         (case convertToWei (f_amount (paymentForm a)) (f_currency (paymentForm a)) of
            Inl e \<Rightarrow> []
          | Inr hex \<Rightarrow>
              steps (snd (balanceCheck p (ws_address (walletState a)) hex)) @
              (if fst (balanceCheck p (ws_address (walletState a)) hex) then []
               else Submission #
                 (case eth_sendTransaction p of
                    Rejects e \<Rightarrow> []
                  | Resolves tx \<Rightarrow>
                      steps (snd (pollReceipt (eth_getTransactionReceipt p) tx 0)) @
                      (case fst (pollReceipt (eth_getTransactionReceipt p) tx 0) of
                         None \<Rightarrow> [BackendSync]
                       | Some r \<Rightarrow> if isSuccess r then [BackendSync] else [])))))"
  using assms
  by (simp add: flow_defs prim_defs new_effects_def Let_def
      split: option.splits sum.splits reply.splits)

lemma submitPayment_local:
  assumes "\<not> paymentForm_invalid (paymentForm a)" and "connected (walletState a)"
  shows "payments (submitPayment ev a) \<noteq> [] \<and>
    pid (hd (payments (submitPayment ev a))) = ''pending-'' @ toString10 (date_now ev) \<and>
    status (hd (payments (submitPayment ev a))) =
    (case ethereum (browser ev) of
       None \<Rightarrow> failed
     | Some p \<Rightarrow>
         (case convertToWei (f_amount (paymentForm a)) (f_currency (paymentForm a)) of
            Inl e \<Rightarrow> failed
          | Inr hex \<Rightarrow>
              (if fst (balanceCheck p (ws_address (walletState a)) hex) then failed
               else
                 (case eth_sendTransaction p of
                    Rejects e \<Rightarrow> failed
                  | Resolves tx \<Rightarrow>
                      (case fst (pollReceipt (eth_getTransactionReceipt p) tx 0) of
                         None \<Rightarrow> pending
                       | Some r \<Rightarrow> if isSuccess r then confirmed else failed)))))"
  using assms
  by (simp add: flow_defs prim_defs pendingRecord_def Let_def
      split: option.splits sum.splits reply.splits)


subsection \<open>The sample run, evaluated\<close>

lemma sample_valid:
  "\<not> paymentForm_invalid (paymentForm sample_app) \<and> connected (walletState sample_app)"
  by (simp add: sample_app_def paymentForm_invalid_def)

lemma sample_wei:
  "BigInt_number (Math_floor (times (parseFloat ''0.011'') literal_1e18)) = Inr 11000000000000000"
proof -
  have "times (parseFloat ''0.011'') literal_1e18 = Finite 11000000000000000"
    by (simp only: parseFloat_0011 toDouble_0011 times_0011)
  then show ?thesis by (simp add: Math_floor_def BigInt_number_def)
qed

lemma sample_convert:
  "convertToWei ''0.011'' ''ETH'' = Inr ''0x27147114878000''"
  by (simp add: convertToWei_def sample_wei toString16_def toHex.simps hexDigit_def)

lemma default_wei:
  "BigInt_number (Math_floor (times (parseFloat ''0.25'') literal_1e18)) = Inr 250000000000000000"
proof -
  have "times (parseFloat ''0.25'') literal_1e18 = Finite 250000000000000000"
    by (simp only: parseFloat_025 toDouble_025 times_025)
  then show ?thesis by (simp add: Math_floor_def BigInt_number_def)
qed

lemma default_convert:
  "convertToWei ''0.25'' ''USDC'' = Inr ''0x3782dace9d90000''"
  by (simp add: convertToWei_def default_wei toString16_def toHex.simps hexDigit_def)

lemma sample_balance:
  "balanceCheck sample_provider (Some ''0x52908400098527886E0F7030069857D2E4169EE7'')
     ''0x27147114878000''
   = (False, [Request (Eth_getBalance (Some ''0x52908400098527886E0F7030069857D2E4169EE7'') ''latest''),
              Request Eth_gasPrice])"
  by (simp add: balanceCheck_def sample_provider_def hexClean_def startsWith_def slice_from_def
      stringToBigInt_def trimString_def isWhiteSpace_def parseRadix_def digitOf_def charCode_def)

lemma sample_poll:
  "pollReceipt (eth_getTransactionReceipt sample_provider) tx 0
   = (Some \<lparr>receipt_status = JString ''0x1''\<rparr>,
      [Request (Eth_getTransactionReceipt tx), Wait 5000,
       Request (Eth_getTransactionReceipt tx), Wait 5000,
       Request (Eth_getTransactionReceipt tx)])"
  by (simp add: pollReceipt.simps[of _ _ 0] pollReceipt.simps[of _ _ "Suc 0"]
      pollReceipt.simps[of _ _ "Suc (Suc 0)"] sample_provider_def receipt_of_def maxAttempts_def)

lemma sample_fields:
  "ethereum (browser sample_env) = Some sample_provider"
  "f_amount (paymentForm sample_app) = ''0.011''"
  "f_currency (paymentForm sample_app) = ''ETH''"
  "ws_address (walletState sample_app) = Some ''0x52908400098527886E0F7030069857D2E4169EE7''"
  "eth_sendTransaction sample_provider =
     Resolves ''0x88df016429689c079f3b2f6ad39fa052532c56795b733da78a91ebe6a713944b''"
  "date_now sample_env = 1700000000000"
  "payments sample_app = []"
  by (simp_all add: sample_env_def sample_app_def sample_provider_def)

lemma sample_steps:
  "steps (new_effects sample_app (submitPayment sample_env sample_app)) =
     [WeiConversion, BalanceCheck, BalanceCheck, Submission,
      ReceiptPolling, ReceiptPolling, ReceiptPolling, BackendSync]"
  using sample_valid
  by (simp add: submitPayment_steps sample_fields sample_convert sample_balance sample_poll
      isSuccess_def)

lemma sample_local:
  "status (hd (payments (submitPayment sample_env sample_app))) = confirmed"
  using sample_valid
  by (simp add: submitPayment_local sample_fields sample_convert sample_balance sample_poll
      isSuccess_def)


lemma balance_steps_count [simp]:
  "count_list (steps (snd (balanceCheck p wa hex))) ReceiptPolling = 0"
  using balance_steps[of p wa hex] by auto

lemma effects_settle: "\<exists>t. effects (settle payload pend tx rcpt a) = effects a @ t"
  by (simp add: settle_def prim_defs Let_def split: option.splits)

lemma effects_sendTransaction:
  "\<exists>t. effects (sendTransaction p payload wa pend hex a) = effects a @ t"
proof (cases "eth_sendTransaction p")
  case (Rejects e)
  then show ?thesis by (simp add: sendTransaction_def prim_defs Let_def)
next
  case (Resolves tx)
  define a3 where "a3 =
    (pushToast info ''Transaction signed. Waiting for confirmation...''
       (updatePaymentStatus pend pending None (Some tx)
          (emit (Request (Eth_sendTransaction wa (recipientWallet payload) hex ''0x5208'')) a)))
    \<lparr>effects := effects (pushToast info ''Transaction signed. Waiting for confirmation...''
       (updatePaymentStatus pend pending None (Some tx)
          (emit (Request (Eth_sendTransaction wa (recipientWallet payload) hex ''0x5208'')) a)))
       @ snd (pollReceipt (eth_getTransactionReceipt p) tx 0)\<rparr>"
  obtain t where "effects (settle payload pend tx (fst (pollReceipt (eth_getTransactionReceipt p) tx 0)) a3)
      = effects a3 @ t"
    using effects_settle by blast
  moreover have "sendTransaction p payload wa pend hex a
      = settle payload pend tx (fst (pollReceipt (eth_getTransactionReceipt p) tx 0)) a3"
    using Resolves by (simp add: sendTransaction_def a3_def Let_def)
  moreover have "\<exists>u. effects a3 = effects a @ u"
    by (simp add: a3_def prim_defs)
  ultimately show ?thesis by auto
qed

lemma effects_submit_try: "\<exists>t. effects (submit_try ev payload wa pend a) = effects a @ t"
proof (cases "ethereum (browser ev)")
  case None
  then show ?thesis by (simp add: submit_try_def prim_defs Let_def)
next
  case (Some p)
  show ?thesis
  proof (cases "convertToWei (f_amount payload) (f_currency payload)")
    case (Inl e)
    with Some show ?thesis by (simp add: submit_try_def prim_defs Let_def)
  next
    case (Inr hex)
    define a2 where "a2 = (emit (ConvertToWei (f_amount payload) (f_currency payload)) a)
      \<lparr>effects := effects (emit (ConvertToWei (f_amount payload) (f_currency payload)) a)
                    @ snd (balanceCheck p wa hex)\<rparr>"
    have grow: "\<exists>u. effects a2 = effects a @ u" by (simp add: a2_def emit_def)
    show ?thesis
    proof (cases "fst (balanceCheck p wa hex)")
      case True
      with Some Inr show ?thesis by (simp add: submit_try_def prim_defs Let_def)
    next
      case False
      with Some Inr have "submit_try ev payload wa pend a = sendTransaction p payload wa pend hex a2"
        by (simp add: submit_try_def a2_def Let_def)
      moreover obtain t where "effects (sendTransaction p payload wa pend hex a2) = effects a2 @ t"
        using effects_sendTransaction by blast
      ultimately show ?thesis using grow by auto
    qed
  qed
qed

lemma submitPayment_first_effect:
  assumes "\<not> paymentForm_invalid (paymentForm a)" and "connected (walletState a)"
  shows "take 1 (new_effects a (submitPayment ev a)) =
     [PaymentsWrite (take 10 (pendingRecord ev (paymentForm a) (ws_address (walletState a))
                               # payments a))]"
proof -
  define a2 where "a2 = set_payments
      (take 10 (pendingRecord ev (paymentForm a) (ws_address (walletState a)) # payments a))
      (a\<lparr>submittingPayment := True\<rparr>)"
  obtain t where "effects (submit_try ev (paymentForm a) (ws_address (walletState a))
      (pid (pendingRecord ev (paymentForm a) (ws_address (walletState a)))) a2) = effects a2 @ t"
    using effects_submit_try by blast
  moreover have "submitPayment ev a = submit_try ev (paymentForm a) (ws_address (walletState a))
      (pid (pendingRecord ev (paymentForm a) (ws_address (walletState a)))) a2"
    using assms by (simp add: submitPayment_def insertPending_def a2_def Let_def)
  ultimately show ?thesis
    by (simp add: new_effects_def a2_def set_payments_def emit_def)
qed

text \<open>
  C1, amended. In every submission that passes form validation and the wallet-connected
  check, the steps occur in the order wei conversion, balance check, transaction
  submission, receipt polling, backend synchronization, and a step is performed only
  after the step before it has been performed.
\<close>

theorem submitPayment_order:
  assumes "\<not> paymentForm_invalid (paymentForm a)" and "connected (walletState a)"
  shows "in_order code_position (new_effects a (submitPayment ev a)) \<and>
    (BackendSync \<in> set (steps (new_effects a (submitPayment ev a))) \<longrightarrow>
       ReceiptPolling \<in> set (steps (new_effects a (submitPayment ev a)))) \<and>
    (ReceiptPolling \<in> set (steps (new_effects a (submitPayment ev a))) \<longrightarrow>
       Submission \<in> set (steps (new_effects a (submitPayment ev a)))) \<and>
    (Submission \<in> set (steps (new_effects a (submitPayment ev a))) \<longrightarrow>
       BalanceCheck \<in> set (steps (new_effects a (submitPayment ev a)))) \<and>
    (BalanceCheck \<in> set (steps (new_effects a (submitPayment ev a))) \<longrightarrow>
       WeiConversion \<in> set (steps (new_effects a (submitPayment ev a))))"
proof -
  note shape = submitPayment_steps[OF assms, of ev]
  show ?thesis
  proof (cases "ethereum (browser ev)")
    case None
    with shape show ?thesis by (simp add: in_order_def)
  next
    case (Some p)
    show ?thesis
    proof (cases "convertToWei (f_amount (paymentForm a)) (f_currency (paymentForm a))")
      case (Inl e)
      with shape Some show ?thesis by (simp add: in_order_def)
    next
      case (Inr hex)
      show ?thesis
      proof (cases "fst (balanceCheck p (ws_address (walletState a)) hex)")
        case True
        with shape Some Inr show ?thesis
          by (simp add: in_order_def balance_steps_sorted)
      next
        case False
        show ?thesis
        proof (cases "eth_sendTransaction p")
          case (Rejects e)
          with shape Some Inr False show ?thesis
            by (simp add: in_order_def sorted_append balance_steps_sorted)
        next
          case (Resolves tx)
          show ?thesis
          proof (cases "fst (pollReceipt (eth_getTransactionReceipt p) tx 0)")
            case None
            with shape Some Inr False Resolves show ?thesis
              by (simp add: in_order_def sorted_append balance_steps_sorted poll_steps_sorted)
          next
            case (Some r)
            with shape \<open>ethereum (browser ev) = Some p\<close> Inr False Resolves show ?thesis
              by (simp add: in_order_def sorted_append balance_steps_sorted poll_steps_sorted)
          qed
        qed
      qed
    qed
  qed
qed

theorem submitPayment_order_witness:
  "\<not> paymentForm_invalid (paymentForm sample_app) \<and> connected (walletState sample_app) \<and>
   in_order code_position (new_effects sample_app (submitPayment sample_env sample_app)) \<and>
   ReceiptPolling \<in> set (steps (new_effects sample_app (submitPayment sample_env sample_app)))"
  using submitPayment_order[of sample_app sample_env] sample_valid
  by (simp add: sample_steps)

text \<open>
  C1, as stated, fails: in the sample run the wei conversion precedes the balance check,
  so the steps are not in the order balance check, wei conversion, submission, polling,
  synchronization.
\<close>

theorem submitPayment_stated_order_fails:
  "steps (new_effects sample_app (submitPayment sample_env sample_app)) =
     [WeiConversion, BalanceCheck, BalanceCheck, Submission,
      ReceiptPolling, ReceiptPolling, ReceiptPolling, BackendSync] \<and>
   \<not> in_order stated_position (new_effects sample_app (submitPayment sample_env sample_app))"
  by (simp add: in_order_def sample_steps)

text \<open>
  What the \<open>try\<close> block of a submission keeps of every entry of the payments list: its
  id, amount, currency and recipient.
\<close>

lemma core_updatePaymentStatus [simp]:
  "map (\<lambda>p. (pid p, amount p, currency p, to_address p))
       (payments (updatePaymentStatus paymentId st msg tx a))
   = map (\<lambda>p. (pid p, amount p, currency p, to_address p)) (payments a)"
  by (simp add: updatePaymentStatus_def set_payments_def emit_def Let_def o_def)

lemma payments_pushToast [simp]: "payments (pushToast t text a) = payments a"
  by (simp add: pushToast_def emit_def)

lemma payments_createIntent [simp]:
  "payments (createIntent payload pend tx c a) = payments a"
  by (simp add: createIntent_def emit_def)

lemma payments_emit [simp]: "payments (emit e a) = payments a"
  by (simp add: emit_def)

lemma core_settle [simp]:
  "map (\<lambda>p. (pid p, amount p, currency p, to_address p))
       (payments (settle payload pend tx rcpt a))
   = map (\<lambda>p. (pid p, amount p, currency p, to_address p)) (payments a)"
  by (simp add: settle_def split: option.splits)

lemma core_sendTransaction [simp]:
  "map (\<lambda>p. (pid p, amount p, currency p, to_address p))
       (payments (sendTransaction p payload wa pend hex a))
   = map (\<lambda>p. (pid p, amount p, currency p, to_address p)) (payments a)"
  by (simp add: sendTransaction_def Let_def split: reply.splits)

lemma core_submit_try [simp]:
  "map (\<lambda>p. (pid p, amount p, currency p, to_address p))
       (payments (submit_try ev payload wa pend a))
   = map (\<lambda>p. (pid p, amount p, currency p, to_address p)) (payments a)"
  by (simp add: submit_try_def Let_def split: option.splits sum.splits)

text \<open>
  C5. In every submission that passes form validation and the wallet-connected check,
  the \<open>try\<close> block with all its provider requests starts from a state whose payments
  list is the former list with the optimistic record put in front (ten entries kept);
  that record has status \<open>pending\<close>, the locally generated id \<open>pending-\<close> followed by
  the clock reading, and the amount, currency and recipient address of the form. The
  write of that list is the first effect of the submission, so every provider request
  comes after it, and at the end of the submission the list still holds the same
  entries by id, amount, currency and recipient, the optimistic one first.
\<close>

theorem optimistic_record_first:
  assumes "\<not> paymentForm_invalid (paymentForm a)" and "connected (walletState a)"
  shows "submitPayment ev a
      = submit_try ev (paymentForm a) (ws_address (walletState a))
          (''pending-'' @ toString10 (date_now ev)) (insertPending ev a) \<and>
    payments (insertPending ev a) =
      \<lparr>pid = ''pending-'' @ toString10 (date_now ev),
       amount = f_amount (paymentForm a),
       currency = f_currency (paymentForm a),
       status = pending,
       to_address = recipientWallet (paymentForm a),
       from_address = ws_address (walletState a),
       transaction_hash = None,
       createdAt = toISOString ev (date_now ev),
       confirmed_at = None,
       description = None\<rparr> # take 9 (payments a) \<and>
    new_effects a (insertPending ev a) = [PaymentsWrite (payments (insertPending ev a))] \<and>
    new_effects a (submitPayment ev a) \<noteq> [] \<and>
    hd (new_effects a (submitPayment ev a)) = PaymentsWrite (payments (insertPending ev a)) \<and>
    (\<forall>i r. i < length (new_effects a (submitPayment ev a)) \<and>
           new_effects a (submitPayment ev a) ! i = Request r \<longrightarrow> 0 < i) \<and>
    map (\<lambda>p. (pid p, amount p, currency p, to_address p)) (payments (submitPayment ev a))
      = (''pending-'' @ toString10 (date_now ev), f_amount (paymentForm a),
         f_currency (paymentForm a), recipientWallet (paymentForm a))
        # map (\<lambda>p. (pid p, amount p, currency p, to_address p)) (take 9 (payments a))"
proof -
  let ?tr = "new_effects a (submitPayment ev a)"
  let ?rec = "pendingRecord ev (paymentForm a) (ws_address (walletState a))"
  let ?w = "PaymentsWrite (take 10 (?rec # payments a))"
  from assms(1) have cur: "f_currency (paymentForm a) \<noteq> []"
    by (simp add: paymentForm_invalid_def)
  have run: "submitPayment ev a
      = submit_try ev (paymentForm a) (ws_address (walletState a))
          (''pending-'' @ toString10 (date_now ev)) (insertPending ev a)"
    using assms by (simp add: submitPayment_def pendingRecord_def Let_def)
  have inserted: "payments (insertPending ev a) = take 10 (?rec # payments a)"
    and written: "new_effects a (insertPending ev a) = [?w]"
    by (simp_all add: insertPending_def set_payments_def emit_def new_effects_def Let_def)
  have list: "take 10 (?rec # payments a) =
      \<lparr>pid = ''pending-'' @ toString10 (date_now ev),
       amount = f_amount (paymentForm a),
       currency = f_currency (paymentForm a),
       status = pending,
       to_address = recipientWallet (paymentForm a),
       from_address = ws_address (walletState a),
       transaction_hash = None,
       createdAt = toISOString ev (date_now ev),
       confirmed_at = None,
       description = None\<rparr> # take 9 (payments a)"
    using cur by (simp add: pendingRecord_def currencyOrETH_def)
  have first: "take 1 ?tr = [?w]" by (rule submitPayment_first_effect[OF assms])
  then have ne: "?tr \<noteq> []" by auto
  with first have hd: "hd ?tr = ?w" by (cases ?tr) auto
  have later: "\<forall>i r. i < length ?tr \<and> ?tr ! i = Request r \<longrightarrow> 0 < i"
  proof (intro allI impI)
    fix i r assume "i < length ?tr \<and> ?tr ! i = Request r"
    with hd ne show "0 < i" by (cases i) (auto simp: hd_conv_nth)
  qed
  have kept: "map (\<lambda>p. (pid p, amount p, currency p, to_address p)) (payments (submitPayment ev a))
      = map (\<lambda>p. (pid p, amount p, currency p, to_address p)) (payments (insertPending ev a))"
    unfolding run by (rule core_submit_try)
  have final: "map (\<lambda>p. (pid p, amount p, currency p, to_address p)) (payments (submitPayment ev a))
      = (''pending-'' @ toString10 (date_now ev), f_amount (paymentForm a),
         f_currency (paymentForm a), recipientWallet (paymentForm a))
        # map (\<lambda>p. (pid p, amount p, currency p, to_address p)) (take 9 (payments a))"
    unfolding kept inserted list by simp
  from run inserted written ne hd later final show ?thesis
    unfolding list by simp
qed

theorem optimistic_record_first_witness:
  "\<not> paymentForm_invalid (paymentForm (sample_app\<lparr>payments := demoPayments sample_env\<rparr>)) \<and>
   connected (walletState (sample_app\<lparr>payments := demoPayments sample_env\<rparr>)) \<and>
   payments (insertPending sample_env (sample_app\<lparr>payments := demoPayments sample_env\<rparr>)) =
     \<lparr>pid = ''pending-1700000000000'', amount = ''0.011'', currency = ''ETH'',
      status = pending, to_address = ''0x8617E340B3D01FA5F11F306F4090FD50E238070D'',
      from_address = Some ''0x52908400098527886E0F7030069857D2E4169EE7'',
      transaction_hash = None, createdAt = ''2023-11-14T22:13:20.000Z'',
      confirmed_at = None, description = None\<rparr> # demoPayments sample_env \<and>
   hd (new_effects (sample_app\<lparr>payments := demoPayments sample_env\<rparr>)
         (submitPayment sample_env (sample_app\<lparr>payments := demoPayments sample_env\<rparr>))) =
     PaymentsWrite
       (\<lparr>pid = ''pending-1700000000000'', amount = ''0.011'', currency = ''ETH'',
         status = pending, to_address = ''0x8617E340B3D01FA5F11F306F4090FD50E238070D'',
         from_address = Some ''0x52908400098527886E0F7030069857D2E4169EE7'',
         transaction_hash = None, createdAt = ''2023-11-14T22:13:20.000Z'',
         confirmed_at = None, description = None\<rparr> # demoPayments sample_env) \<and>
   map pid (payments (submitPayment sample_env (sample_app\<lparr>payments := demoPayments sample_env\<rparr>)))
     = [''pending-1700000000000'', ''demo-1'', ''demo-2'', ''demo-3'']"
proof -
  let ?a = "sample_app\<lparr>payments := demoPayments sample_env\<rparr>"
  let ?rec = "\<lparr>pid = ''pending-1700000000000'', amount = ''0.011'', currency = ''ETH'',
      status = pending, to_address = ''0x8617E340B3D01FA5F11F306F4090FD50E238070D'',
      from_address = Some ''0x52908400098527886E0F7030069857D2E4169EE7'',
      transaction_hash = None, createdAt = ''2023-11-14T22:13:20.000Z'',
      confirmed_at = None, description = None\<rparr>"
  have valid: "\<not> paymentForm_invalid (paymentForm ?a)" and conn: "connected (walletState ?a)"
    using sample_valid by simp_all
  have stamp: "''pending-'' @ toString10 (date_now sample_env) = ''pending-1700000000000''"
    by (simp add: sample_env_def toString10_def toDecimal.simps hexDigit_def)
  have three: "take 9 (demoPayments sample_env) = demoPayments sample_env"
    by (simp add: demoPayments_def)
  have sel: "payments ?a = demoPayments sample_env" "paymentForm ?a = paymentForm sample_app"
      "walletState ?a = walletState sample_app"
    by simp_all
  have vals: "f_amount (paymentForm sample_app) = ''0.011''"
      "f_currency (paymentForm sample_app) = ''ETH''"
      "recipientWallet (paymentForm sample_app) = ''0x8617E340B3D01FA5F11F306F4090FD50E238070D''"
      "ws_address (walletState sample_app) = Some ''0x52908400098527886E0F7030069857D2E4169EE7''"
      "toISOString sample_env (date_now sample_env) = ''2023-11-14T22:13:20.000Z''"
    by (simp_all add: sample_app_def sample_env_def)
  note all = optimistic_record_first[OF valid conn, of sample_env]
  from all have "payments (insertPending sample_env ?a) =
      \<lparr>pid = ''pending-'' @ toString10 (date_now sample_env),
       amount = f_amount (paymentForm ?a),
       currency = f_currency (paymentForm ?a),
       status = pending,
       to_address = recipientWallet (paymentForm ?a),
       from_address = ws_address (walletState ?a),
       transaction_hash = None,
       createdAt = toISOString sample_env (date_now sample_env),
       confirmed_at = None,
       description = None\<rparr> # take 9 (payments ?a)"
    by blast
  then have inserted: "payments (insertPending sample_env ?a) = ?rec # demoPayments sample_env"
    by (simp only: sel stamp three vals)
  from all have "hd (new_effects ?a (submitPayment sample_env ?a))
      = PaymentsWrite (payments (insertPending sample_env ?a))"
    by blast
  then have first: "hd (new_effects ?a (submitPayment sample_env ?a))
      = PaymentsWrite (?rec # demoPayments sample_env)"
    by (simp only: inserted)
  from all have "map (\<lambda>p. (pid p, amount p, currency p, to_address p))
        (payments (submitPayment sample_env ?a))
      = (''pending-'' @ toString10 (date_now sample_env), f_amount (paymentForm ?a),
         f_currency (paymentForm ?a), recipientWallet (paymentForm ?a))
        # map (\<lambda>p. (pid p, amount p, currency p, to_address p)) (take 9 (payments ?a))"
    by blast
  then have "map (\<lambda>p. (pid p, amount p, currency p, to_address p))
        (payments (submitPayment sample_env ?a))
      = (''pending-1700000000000'', ''0.011'', ''ETH'', ''0x8617E340B3D01FA5F11F306F4090FD50E238070D'')
        # map (\<lambda>p. (pid p, amount p, currency p, to_address p)) (demoPayments sample_env)"
    by (simp only: sel stamp three vals)
  then have "map fst (map (\<lambda>p. (pid p, amount p, currency p, to_address p))
        (payments (submitPayment sample_env ?a)))
      = map fst ((''pending-1700000000000'', ''0.011'', ''ETH'',
                  ''0x8617E340B3D01FA5F11F306F4090FD50E238070D'')
        # map (\<lambda>p. (pid p, amount p, currency p, to_address p)) (demoPayments sample_env))"
    by (rule arg_cong)
  then have ids: "map pid (payments (submitPayment sample_env ?a))
      = [''pending-1700000000000'', ''demo-1'', ''demo-2'', ''demo-3'']"
    by (simp add: o_def demoPayments_def)
  from valid conn inserted first ids show ?thesis by blast
qed


subsection \<open>Receipts and the backend\<close>

lemma subscribers_append [simp]: "subscribers (t @ u) = subscribers t @ subscribers u"
  by (induction t rule: subscribers.induct) auto

lemma subscribers_balance [simp]: "subscribers (snd (balanceCheck p wa hex)) = []"
  by (simp add: balanceCheck_def Let_def split: reply.splits option.splits)

lemma subscribers_poll [simp]: "subscribers (snd (pollReceipt answers tx k)) = []"
proof (induction answers tx k rule: pollReceipt.induct)
  case (1 answers tx k)
  then show ?case
    by (subst pollReceipt.simps) (simp add: Let_def split: option.splits)
qed

lemma submitPayment_subscribers:
  assumes "\<not> paymentForm_invalid (paymentForm a)" and "connected (walletState a)"
  shows "subscribers (new_effects a (submitPayment ev a)) =
    (case ethereum (browser ev) of
       None \<Rightarrow> []
     | Some p \<Rightarrow>
         (case convertToWei (f_amount (paymentForm a)) (f_currency (paymentForm a)) of
            Inl e \<Rightarrow> []
          | Inr hex \<Rightarrow>
              (if fst (balanceCheck p (ws_address (walletState a)) hex) then []
               else
                 (case eth_sendTransaction p of
                    Rejects e \<Rightarrow> []
                  | Resolves tx \<Rightarrow>
                      (case fst (pollReceipt (eth_getTransactionReceipt p) tx 0) of
                         None \<Rightarrow>
                           [\<lparr>sub_payload = paymentForm a,
                             sub_pendingId = ''pending-'' @ toString10 (date_now ev),
                             sub_txHash = tx, transactionConfirmed = False\<rparr>]
                       | Some r \<Rightarrow>
                           if isSuccess r
                           then [\<lparr>sub_payload = paymentForm a,
                                  sub_pendingId = ''pending-'' @ toString10 (date_now ev),
                                  sub_txHash = tx, transactionConfirmed = True\<rparr>]
                           else [])))))"
  using assms
  by (simp add: flow_defs prim_defs pendingRecord_def new_effects_def Let_def
      split: option.splits sum.splits reply.splits)


lemma receipt_of_Some: "receipt_of answer = Some r \<longleftrightarrow> answer = Resolves (Some r)"
  by (simp add: receipt_of_def split: reply.splits)

lemma receipt_of_None: "receipt_of answer = None \<longleftrightarrow> (\<forall>r. answer \<noteq> Resolves (Some r))"
  by (simp add: receipt_of_def split: reply.splits option.splits)

text \<open>The sample run with other receipt answers: the transaction is submitted all the same.\<close>

lemma sample_with_fields:
  "ethereum (browser (sample_env_with answers))
     = Some (sample_provider\<lparr>eth_getTransactionReceipt := answers\<rparr>)"
  "eth_sendTransaction (sample_provider\<lparr>eth_getTransactionReceipt := answers\<rparr>) =
     Resolves ''0x88df016429689c079f3b2f6ad39fa052532c56795b733da78a91ebe6a713944b''"
  "eth_getTransactionReceipt (sample_provider\<lparr>eth_getTransactionReceipt := answers\<rparr>) = answers"
  "date_now (sample_env_with answers) = 1700000000000"
  by (simp_all add: sample_env_with_def sample_env_def sample_provider_def)

lemma sample_with_balance:
  "balanceCheck (sample_provider\<lparr>eth_getTransactionReceipt := answers\<rparr>)
     (Some ''0x52908400098527886E0F7030069857D2E4169EE7'') ''0x27147114878000''
   = (False, [Request (Eth_getBalance (Some ''0x52908400098527886E0F7030069857D2E4169EE7'') ''latest''),
              Request Eth_gasPrice])"
  by (simp add: balanceCheck_def sample_provider_def hexClean_def startsWith_def slice_from_def
      stringToBigInt_def trimString_def isWhiteSpace_def parseRadix_def digitOf_def charCode_def)

lemma sample_with_submitted:
  "Submission \<in> set (steps (new_effects sample_app
      (submitPayment (sample_env_with answers) sample_app)))"
  using sample_valid
  by (simp add: submitPayment_steps sample_with_fields sample_fields sample_convert
      sample_with_balance)

text \<open>
  C3. After the transaction is submitted and accepted, at most 60 receipt requests are
  made. If the first receipt that arrives within the 60 attempts has status \<open>'0x1'\<close>,
  \<open>'0x01'\<close> or \<open>1\<close>, the local payment becomes \<open>confirmed\<close> and the backend is called;
  if it has any other status, the payment becomes \<open>failed\<close> and the backend is not
  called; if no receipt arrives within the 60 attempts, the payment is \<open>pending\<close> and
  the backend is called.
\<close>

theorem receipt_outcomes:
  assumes "\<not> paymentForm_invalid (paymentForm a)" and "connected (walletState a)"
    and "ethereum (browser ev) = Some p" and "eth_sendTransaction p = Resolves tx"
    and "Submission \<in> set (steps (new_effects a (submitPayment ev a)))"
  shows "count_list (steps (new_effects a (submitPayment ev a))) ReceiptPolling \<le> 60 \<and>
    payments (submitPayment ev a) \<noteq> [] \<and>
    pid (hd (payments (submitPayment ev a))) = ''pending-'' @ toString10 (date_now ev) \<and>
    (\<forall>j r. j < 60 \<and> eth_getTransactionReceipt p j = Resolves (Some r) \<and>
           (\<forall>i<j. \<forall>r'. eth_getTransactionReceipt p i \<noteq> Resolves (Some r')) \<longrightarrow>
       (if receipt_status r = JString ''0x1'' \<or> receipt_status r = JString ''0x01'' \<or>
           receipt_status r = JNumber 1
        then status (hd (payments (submitPayment ev a))) = confirmed \<and>
             BackendSync \<in> set (steps (new_effects a (submitPayment ev a)))
        else status (hd (payments (submitPayment ev a))) = failed \<and>
             BackendSync \<notin> set (steps (new_effects a (submitPayment ev a))))) \<and>
    ((\<forall>j<60. \<forall>r. eth_getTransactionReceipt p j \<noteq> Resolves (Some r)) \<longrightarrow>
       status (hd (payments (submitPayment ev a))) = pending \<and>
       BackendSync \<in> set (steps (new_effects a (submitPayment ev a))))"
proof -
  let ?P = "pollReceipt (eth_getTransactionReceipt p) tx 0"
  let ?S = "steps (new_effects a (submitPayment ev a))"
  let ?h = "hd (payments (submitPayment ev a))"
  note shape = submitPayment_steps[OF assms(1,2), of ev]
  note local = submitPayment_local[OF assms(1,2), of ev]
  obtain hex where hex:
    "convertToWei (f_amount (paymentForm a)) (f_currency (paymentForm a)) = Inr hex"
    using shape assms(3,5)
    by (cases "convertToWei (f_amount (paymentForm a)) (f_currency (paymentForm a))")
       auto
  have passed: "\<not> fst (balanceCheck p (ws_address (walletState a)) hex)"
    using shape assms(3,5) hex by (auto split: if_splits)
  have S: "?S = WeiConversion # steps (snd (balanceCheck p (ws_address (walletState a)) hex)) @
      Submission # steps (snd ?P) @
      (case fst ?P of None \<Rightarrow> [BackendSync]
       | Some r \<Rightarrow> if isSuccess r then [BackendSync] else [])"
    using shape assms(3,4) hex passed by simp
  have st: "status ?h =
      (case fst ?P of None \<Rightarrow> pending | Some r \<Rightarrow> if isSuccess r then confirmed else failed)"
    using local assms(3,4) hex passed by simp
  have count: "count_list ?S ReceiptPolling \<le> 60"
    using poll_steps_count[of "eth_getTransactionReceipt p" tx]
    by (simp add: S split: option.splits)
  have got: "\<forall>j r. j < 60 \<and> eth_getTransactionReceipt p j = Resolves (Some r) \<and>
           (\<forall>i<j. \<forall>r'. eth_getTransactionReceipt p i \<noteq> Resolves (Some r')) \<longrightarrow>
       (if receipt_status r = JString ''0x1'' \<or> receipt_status r = JString ''0x01'' \<or>
           receipt_status r = JNumber 1
        then status ?h = confirmed \<and> BackendSync \<in> set ?S
        else status ?h = failed \<and> BackendSync \<notin> set ?S)"
  proof (intro allI impI)
    fix j r
    assume j: "j < 60 \<and> eth_getTransactionReceipt p j = Resolves (Some r) \<and>
           (\<forall>i<j. \<forall>r'. eth_getTransactionReceipt p i \<noteq> Resolves (Some r'))"
    then have "fst ?P = Some r"
      by (intro pollReceipt_first[of j])
         (simp_all add: maxAttempts_def receipt_of_Some receipt_of_None)
    then show "if receipt_status r = JString ''0x1'' \<or> receipt_status r = JString ''0x01'' \<or>
           receipt_status r = JNumber 1
        then status ?h = confirmed \<and> BackendSync \<in> set ?S
        else status ?h = failed \<and> BackendSync \<notin> set ?S"
      by (simp add: S st isSuccess_def)
  qed
  have none: "(\<forall>j<60. \<forall>r. eth_getTransactionReceipt p j \<noteq> Resolves (Some r)) \<longrightarrow>
       status ?h = pending \<and> BackendSync \<in> set ?S"
  proof
    assume "\<forall>j<60. \<forall>r. eth_getTransactionReceipt p j \<noteq> Resolves (Some r)"
    then have "fst ?P = None"
      by (intro pollReceipt_none) (simp add: maxAttempts_def receipt_of_None)
    then show "status ?h = pending \<and> BackendSync \<in> set ?S"
      by (simp add: S st)
  qed
  from local count got none show ?thesis by blast
qed

text \<open>
  At the sample run: a receipt with status \<open>'0x1'\<close> at the third request confirms the
  payment; so do the statuses \<open>'0x01'\<close> and \<open>1\<close>; a receipt with status \<open>'0x0'\<close> makes
  it fail, without a call of the backend; and when every request is answered with
  \<open>null\<close> or rejected, the payment stays pending and the backend is called.
\<close>

theorem receipt_outcomes_witness:
  "status (hd (payments (submitPayment sample_env sample_app))) = confirmed \<and>
   BackendSync \<in> set (steps (new_effects sample_app (submitPayment sample_env sample_app))) \<and>
   count_list (steps (new_effects sample_app (submitPayment sample_env sample_app))) ReceiptPolling \<le> 60 \<and>
   status (hd (payments (submitPayment
      (sample_env_with (\<lambda>k. Resolves (Some \<lparr>receipt_status = JString ''0x01''\<rparr>))) sample_app)))
     = confirmed \<and>
   status (hd (payments (submitPayment
      (sample_env_with (\<lambda>k. Resolves (Some \<lparr>receipt_status = JNumber 1\<rparr>))) sample_app)))
     = confirmed \<and>
   status (hd (payments (submitPayment
      (sample_env_with (\<lambda>k. Resolves (Some \<lparr>receipt_status = JString ''0x0''\<rparr>))) sample_app)))
     = failed \<and>
   BackendSync \<notin> set (steps (new_effects sample_app (submitPayment
      (sample_env_with (\<lambda>k. Resolves (Some \<lparr>receipt_status = JString ''0x0''\<rparr>))) sample_app))) \<and>
   status (hd (payments (submitPayment
      (sample_env_with (\<lambda>k. if even k then Resolves None else Rejects (new_Error ''timeout'')))
      sample_app)))
     = pending \<and>
   BackendSync \<in> set (steps (new_effects sample_app (submitPayment
      (sample_env_with (\<lambda>k. if even k then Resolves None else Rejects (new_Error ''timeout'')))
      sample_app)))"
proof -
  let ?tx = "''0x88df016429689c079f3b2f6ad39fa052532c56795b733da78a91ebe6a713944b''"
  have sub: "Submission \<in> set (steps (new_effects sample_app (submitPayment sample_env sample_app)))"
    by (simp add: sample_steps)
  from receipt_outcomes[OF sample_valid[THEN conjunct1] sample_valid[THEN conjunct2]
      sample_fields(1) sample_fields(5) sub]
  have c0: "count_list (steps (new_effects sample_app (submitPayment sample_env sample_app)))
        ReceiptPolling \<le> 60"
    and g0: "(2::nat) < 60 \<and>
       eth_getTransactionReceipt sample_provider 2 = Resolves (Some \<lparr>receipt_status = JString ''0x1''\<rparr>) \<and>
       (\<forall>i<2. \<forall>r'. eth_getTransactionReceipt sample_provider i \<noteq> Resolves (Some r')) \<longrightarrow>
       (if receipt_status \<lparr>receipt_status = JString ''0x1''\<rparr> = JString ''0x1'' \<or>
           receipt_status \<lparr>receipt_status = JString ''0x1''\<rparr> = JString ''0x01'' \<or>
           receipt_status \<lparr>receipt_status = JString ''0x1''\<rparr> = JNumber 1
        then status (hd (payments (submitPayment sample_env sample_app))) = confirmed \<and>
             BackendSync \<in> set (steps (new_effects sample_app (submitPayment sample_env sample_app)))
        else status (hd (payments (submitPayment sample_env sample_app))) = failed \<and>
             BackendSync \<notin> set (steps (new_effects sample_app (submitPayment sample_env sample_app))))"
    by blast+
  have "(2::nat) < 60 \<and>
       eth_getTransactionReceipt sample_provider 2 = Resolves (Some \<lparr>receipt_status = JString ''0x1''\<rparr>) \<and>
       (\<forall>i<2. \<forall>r'. eth_getTransactionReceipt sample_provider i \<noteq> Resolves (Some r'))"
    by (simp add: sample_provider_def)
  with g0 have r0: "status (hd (payments (submitPayment sample_env sample_app))) = confirmed \<and>
      BackendSync \<in> set (steps (new_effects sample_app (submitPayment sample_env sample_app)))"
    by simp
  have first: "\<And>(answers :: nat \<Rightarrow> receipt option reply) r.
      answers 0 = Resolves (Some r) \<Longrightarrow>
      (if receipt_status r = JString ''0x1'' \<or> receipt_status r = JString ''0x01'' \<or>
           receipt_status r = JNumber 1
       then status (hd (payments (submitPayment (sample_env_with answers) sample_app))) = confirmed \<and>
            BackendSync \<in> set (steps (new_effects sample_app
              (submitPayment (sample_env_with answers) sample_app)))
       else status (hd (payments (submitPayment (sample_env_with answers) sample_app))) = failed \<and>
            BackendSync \<notin> set (steps (new_effects sample_app
              (submitPayment (sample_env_with answers) sample_app))))"
  proof -
    fix answers :: "nat \<Rightarrow> receipt option reply" and r
    assume a0: "answers 0 = Resolves (Some r)"
    from receipt_outcomes[OF sample_valid[THEN conjunct1] sample_valid[THEN conjunct2]
        sample_with_fields(1) sample_with_fields(2) sample_with_submitted, of answers]
    have "(0::nat) < 60 \<and>
       eth_getTransactionReceipt (sample_provider\<lparr>eth_getTransactionReceipt := answers\<rparr>) 0
         = Resolves (Some r) \<and>
       (\<forall>i<0. \<forall>r'. eth_getTransactionReceipt (sample_provider\<lparr>eth_getTransactionReceipt := answers\<rparr>) i
          \<noteq> Resolves (Some r')) \<longrightarrow>
       (if receipt_status r = JString ''0x1'' \<or> receipt_status r = JString ''0x01'' \<or>
           receipt_status r = JNumber 1
        then status (hd (payments (submitPayment (sample_env_with answers) sample_app))) = confirmed \<and>
             BackendSync \<in> set (steps (new_effects sample_app
               (submitPayment (sample_env_with answers) sample_app)))
        else status (hd (payments (submitPayment (sample_env_with answers) sample_app))) = failed \<and>
             BackendSync \<notin> set (steps (new_effects sample_app
               (submitPayment (sample_env_with answers) sample_app))))"
      by blast
    with a0 show "if receipt_status r = JString ''0x1'' \<or> receipt_status r = JString ''0x01'' \<or>
           receipt_status r = JNumber 1
       then status (hd (payments (submitPayment (sample_env_with answers) sample_app))) = confirmed \<and>
            BackendSync \<in> set (steps (new_effects sample_app
              (submitPayment (sample_env_with answers) sample_app)))
       else status (hd (payments (submitPayment (sample_env_with answers) sample_app))) = failed \<and>
            BackendSync \<notin> set (steps (new_effects sample_app
              (submitPayment (sample_env_with answers) sample_app)))"
      by (simp add: sample_with_fields(3))
  qed
  from first[of "\<lambda>k. Resolves (Some \<lparr>receipt_status = JString ''0x01''\<rparr>)"
      "\<lparr>receipt_status = JString ''0x01''\<rparr>"]
  have r1: "status (hd (payments (submitPayment
      (sample_env_with (\<lambda>k. Resolves (Some \<lparr>receipt_status = JString ''0x01''\<rparr>))) sample_app)))
     = confirmed"
    by simp
  from first[of "\<lambda>k. Resolves (Some \<lparr>receipt_status = JNumber 1\<rparr>)"
      "\<lparr>receipt_status = JNumber 1\<rparr>"]
  have r2: "status (hd (payments (submitPayment
      (sample_env_with (\<lambda>k. Resolves (Some \<lparr>receipt_status = JNumber 1\<rparr>))) sample_app)))
     = confirmed"
    by simp
  from first[of "\<lambda>k. Resolves (Some \<lparr>receipt_status = JString ''0x0''\<rparr>)"
      "\<lparr>receipt_status = JString ''0x0''\<rparr>"]
  have r3: "status (hd (payments (submitPayment
      (sample_env_with (\<lambda>k. Resolves (Some \<lparr>receipt_status = JString ''0x0''\<rparr>))) sample_app)))
     = failed \<and>
     BackendSync \<notin> set (steps (new_effects sample_app (submitPayment
      (sample_env_with (\<lambda>k. Resolves (Some \<lparr>receipt_status = JString ''0x0''\<rparr>))) sample_app)))"
    by simp
  let ?never = "\<lambda>k::nat. if even k then Resolves None else Rejects (new_Error ''timeout'')"
  from receipt_outcomes[OF sample_valid[THEN conjunct1] sample_valid[THEN conjunct2]
      sample_with_fields(1) sample_with_fields(2) sample_with_submitted, of ?never]
  have "(\<forall>j<60. \<forall>r. eth_getTransactionReceipt (sample_provider\<lparr>eth_getTransactionReceipt := ?never\<rparr>) j
          \<noteq> Resolves (Some r)) \<longrightarrow>
       status (hd (payments (submitPayment (sample_env_with ?never) sample_app))) = pending \<and>
       BackendSync \<in> set (steps (new_effects sample_app
         (submitPayment (sample_env_with ?never) sample_app)))"
    by blast
  then have r4: "status (hd (payments (submitPayment (sample_env_with ?never) sample_app))) = pending \<and>
       BackendSync \<in> set (steps (new_effects sample_app
         (submitPayment (sample_env_with ?never) sample_app)))"
    by (simp add: sample_with_fields(3))
  from r0 c0 r1 r2 r3 r4 show ?thesis by blast
qed


subsection \<open>The error callback and the balance check\<close>

lemma error_callback_entries:
  "list_all2 (\<lambda>q q'. q' = q \<or> (pid q = sub_pendingId sub \<and> status q' = pending))
     (payments st) (payments (createPaymentIntent_error sub st))"
  by (auto simp: createPaymentIntent_error_def prim_defs Let_def list_all2_conv_all_nth
      split: option.splits)

lemma error_callback_head:
  assumes "payments st \<noteq> []" and "pid (hd (payments st)) = sub_pendingId sub"
  shows "payments (createPaymentIntent_error sub st) \<noteq> [] \<and>
    pid (hd (payments (createPaymentIntent_error sub st))) = sub_pendingId sub \<and>
    status (hd (payments (createPaymentIntent_error sub st)))
      = (if status (hd (payments st)) = confirmed then confirmed else pending)"
proof -
  from assms obtain q qs where qs: "payments st = q # qs" "pid q = sub_pendingId sub"
    by (cases "payments st") auto
  then show ?thesis
    by (simp add: createPaymentIntent_error_def prim_defs Let_def)
qed

text \<open>
  C4. The error callback of the backend call never rolls a payment back: it leaves every
  payment unchanged or sets it to \<open>pending\<close>. After a submission whose receipt reported
  success, the local payment is \<open>confirmed\<close> before the callback and stays \<open>confirmed\<close>
  after it; after a submission that was not confirmed, the callback sets the local
  payment to \<open>pending\<close>.
\<close>

theorem backend_error_keeps_state:
  assumes "\<not> paymentForm_invalid (paymentForm a)" and "connected (walletState a)"
    and "ethereum (browser ev) = Some p" and "eth_sendTransaction p = Resolves tx"
    and "sub \<in> set (subscribers (new_effects a (submitPayment ev a)))"
  shows "list_all2 (\<lambda>q q'. q' = q \<or> (pid q = sub_pendingId sub \<and> status q' = pending))
       (payments st) (payments (createPaymentIntent_error sub st)) \<and>
    sub_pendingId sub = ''pending-'' @ toString10 (date_now ev) \<and>
    transactionConfirmed sub =
      (case fst (pollReceipt (eth_getTransactionReceipt p) tx 0) of
         None \<Rightarrow> False | Some r \<Rightarrow> isSuccess r) \<and>
    (transactionConfirmed sub \<longleftrightarrow> status (hd (payments (submitPayment ev a))) = confirmed) \<and>
    payments (createPaymentIntent_error sub (submitPayment ev a)) \<noteq> [] \<and>
    pid (hd (payments (createPaymentIntent_error sub (submitPayment ev a))))
      = ''pending-'' @ toString10 (date_now ev) \<and>
    status (hd (payments (createPaymentIntent_error sub (submitPayment ev a))))
      = (if transactionConfirmed sub then confirmed else pending)"
proof -
  let ?P = "pollReceipt (eth_getTransactionReceipt p) tx 0"
  note subs = submitPayment_subscribers[OF assms(1,2), of ev]
  note local = submitPayment_local[OF assms(1,2), of ev]
  obtain hex where hex:
    "convertToWei (f_amount (paymentForm a)) (f_currency (paymentForm a)) = Inr hex"
    using subs assms(3,5)
    by (cases "convertToWei (f_amount (paymentForm a)) (f_currency (paymentForm a))")
       auto
  have passed: "\<not> fst (balanceCheck p (ws_address (walletState a)) hex)"
    using subs assms(3,5) hex by (auto split: if_splits)
  have sub: "sub_pendingId sub = ''pending-'' @ toString10 (date_now ev) \<and>
      transactionConfirmed sub = (case fst ?P of None \<Rightarrow> False | Some r \<Rightarrow> isSuccess r)"
    using subs assms(3,4,5) hex passed by (auto split: option.splits if_splits)
  have st: "status (hd (payments (submitPayment ev a))) =
      (case fst ?P of None \<Rightarrow> pending | Some r \<Rightarrow> if isSuccess r then confirmed else failed)"
    using local assms(3,4) hex passed by simp
  have conf: "transactionConfirmed sub \<longleftrightarrow> status (hd (payments (submitPayment ev a))) = confirmed"
    using sub st by (auto split: option.splits)
  have hd: "payments (submitPayment ev a) \<noteq> []"
      "pid (hd (payments (submitPayment ev a))) = sub_pendingId sub"
    using local sub by simp_all
  from error_callback_head[OF hd] error_callback_entries[of sub st] sub conf
  show ?thesis by simp
qed

lemma sample_subscriber:
  "subscribers (new_effects sample_app (submitPayment sample_env sample_app)) =
     [\<lparr>sub_payload = paymentForm sample_app, sub_pendingId = ''pending-1700000000000'',
       sub_txHash = ''0x88df016429689c079f3b2f6ad39fa052532c56795b733da78a91ebe6a713944b'',
       transactionConfirmed = True\<rparr>]"
  using sample_valid
  by (simp add: submitPayment_subscribers sample_fields sample_convert sample_balance sample_poll
      isSuccess_def toString10_def toDecimal.simps hexDigit_def)

theorem backend_error_keeps_state_witness:
  "\<lparr>sub_payload = paymentForm sample_app, sub_pendingId = ''pending-1700000000000'',
     sub_txHash = ''0x88df016429689c079f3b2f6ad39fa052532c56795b733da78a91ebe6a713944b'',
     transactionConfirmed = True\<rparr>
     \<in> set (subscribers (new_effects sample_app (submitPayment sample_env sample_app))) \<and>
   status (hd (payments (createPaymentIntent_error
     \<lparr>sub_payload = paymentForm sample_app, sub_pendingId = ''pending-1700000000000'',
       sub_txHash = ''0x88df016429689c079f3b2f6ad39fa052532c56795b733da78a91ebe6a713944b'',
       transactionConfirmed = True\<rparr>
     (submitPayment sample_env sample_app)))) = confirmed"
proof -
  let ?sub = "\<lparr>sub_payload = paymentForm sample_app, sub_pendingId = ''pending-1700000000000'',
     sub_txHash = ''0x88df016429689c079f3b2f6ad39fa052532c56795b733da78a91ebe6a713944b'',
     transactionConfirmed = True\<rparr>"
  have member: "?sub \<in> set (subscribers (new_effects sample_app (submitPayment sample_env sample_app)))"
    by (simp add: sample_subscriber)
  have valid: "\<not> paymentForm_invalid (paymentForm sample_app)"
    and conn: "connected (walletState sample_app)"
    using sample_valid by simp_all
  from backend_error_keeps_state[OF valid conn sample_fields(1) sample_fields(5) member]
  have "status (hd (payments (createPaymentIntent_error ?sub (submitPayment sample_env sample_app))))
      = (if transactionConfirmed ?sub then confirmed else pending)"
    by blast
  with member show ?thesis by simp
qed

text \<open>
  C2 at the sample run. The wallet holds \<open>10^15\<close> wei, the payment is \<open>11 * 10^15\<close> wei
  and the gas price \<open>10^9\<close> wei, so the balance is less than the amount plus
  \<open>21000\<close> times the gas price. The balance check completes without an exception, yet it
  reads the amount as \<open>27147114878000\<close> (the radix-16 digits taken as decimal), the
  transaction is submitted and the local payment does not become \<open>failed\<close>. For the
  form's default amount of \<open>0.25\<close> (\<open>0x3782dace9d90000\<close> wei) the amount does not parse
  at all, and the check never reports an insufficient balance, whatever the provider
  answers.
\<close>

theorem insufficient_balance_sent:
  "eth_getBalance sample_provider = Resolves ''0x38d7ea4c68000'' \<and>
   stringToBigInt ''0x38d7ea4c68000'' = Some 1000000000000000 \<and>
   eth_gasPrice sample_provider = Resolves ''0x3b9aca00'' \<and>
   stringToBigInt ''0x3b9aca00'' = Some 1000000000 \<and>
   BigInt_number (Math_floor (times (parseFloat (f_amount (paymentForm sample_app))) literal_1e18))
     = Inr 11000000000000000 \<and>
   (1000000000000000 :: int) < 11000000000000000 + 21000 * 1000000000 \<and>
   convertToWei (f_amount (paymentForm sample_app))
     (f_currency (paymentForm sample_app)) = Inr ''0x27147114878000'' \<and>
   stringToBigInt (hexClean ''0x27147114878000'') = Some 27147114878000 \<and>
   Submission \<in> set (steps (new_effects sample_app (submitPayment sample_env sample_app))) \<and>
   status (hd (payments (submitPayment sample_env sample_app))) = confirmed \<and>
   stringToBigInt (hexClean ''0x3782dace9d90000'') = None \<and>
   (\<forall>p wa. fst (balanceCheck p wa ''0x3782dace9d90000'') = False)"
proof -
  have parse: "stringToBigInt ''0x38d7ea4c68000'' = Some 1000000000000000"
    "stringToBigInt ''0x3b9aca00'' = Some 1000000000"
    "stringToBigInt (hexClean ''0x27147114878000'') = Some 27147114878000"
    "stringToBigInt (hexClean ''0x3782dace9d90000'') = None"
    by (simp_all add: hexClean_def startsWith_def slice_from_def stringToBigInt_def
        trimString_def isWhiteSpace_def parseRadix_def digitOf_def charCode_def)
  have never: "\<forall>p wa. fst (balanceCheck p wa ''0x3782dace9d90000'') = False"
    by (simp add: balanceCheck_def parse(4) split: reply.splits option.splits)
  show ?thesis
    using parse never sample_local sample_convert sample_wei
    by (simp add: sample_steps sample_fields)
       (simp add: sample_provider_def sample_env_def)
qed


subsection \<open>The length of the payments list\<close>

lemma length_insert_sorted [simp]: "length (insert_sorted cmp x ys) = Suc (length ys)"
  by (induction ys) auto

lemma length_array_sort [simp]: "length (array_sort cmp xs) = length xs"
  by (induction xs) (auto simp: array_sort_def)

lemma length_settle [simp]:
  "length (payments (settle payload pend tx rcpt a)) = length (payments a)"
  by (simp add: settle_def prim_defs Let_def split: option.splits)

lemma length_sendTransaction [simp]:
  "length (payments (sendTransaction p payload wa pend hex a)) = length (payments a)"
  by (simp add: sendTransaction_def prim_defs Let_def split: reply.splits)

lemma length_submit_try [simp]:
  "length (payments (submit_try ev payload wa pend a)) = length (payments a)"
  by (simp add: submit_try_def prim_defs Let_def split: option.splits sum.splits)

lemma length_submitPayment:
  "length (payments a) \<le> 10 \<Longrightarrow> length (payments (submitPayment ev a)) \<le> 10"
  by (simp add: submitPayment_def insertPending_def prim_defs Let_def)

lemma payments_startPolling [simp]:
  "payments (startPaymentStatusPolling paymentId tx a) = payments a"
  by (simp add: startPaymentStatusPolling_def clearInterval_def Let_def split: option.splits)

lemma length_loadRecentPayments:
  "length (payments a) \<le> 10 \<Longrightarrow> length (payments (loadRecentPayments ctor a)) \<le> 10"
  by (simp add: loadRecentPayments_def prim_defs demoPayments_def)

lemma length_loadRecentPayments_next:
  "length (payments a) \<le> 10 \<Longrightarrow> length (payments (loadRecentPayments_next ev items a)) \<le> 10"
  by (simp add: loadRecentPayments_next_def prim_defs)

lemma length_intent_next:
  assumes "length (payments a) \<le> 10"
  shows "length (payments (createPaymentIntent_next ctor ev sub response a)) \<le> 10"
proof -
  define a2 where "a2 = (set_payments
      (map (\<lambda>q. if pid q = sub_pendingId sub
         then (with_status
                 (if transactionConfirmed sub then confirmed
                  else (case status (case resp_payment response of Some x \<Rightarrow> x | None \<Rightarrow> resp_self response) of
                          Some s \<Rightarrow> s | None \<Rightarrow> pending))
                 (case resp_payment response of Some x \<Rightarrow> x | None \<Rightarrow> resp_self response))
              \<lparr>transaction_hash := Some (sub_txHash sub),
               confirmed_at :=
                 (if (if transactionConfirmed sub then confirmed
                      else (case status (case resp_payment response of Some x \<Rightarrow> x | None \<Rightarrow> resp_self response) of
                              Some s \<Rightarrow> s | None \<Rightarrow> pending)) = confirmed
                  then Some (toISOString ev (date_now ev))
                  else confirmed_at (case resp_payment response of Some x \<Rightarrow> x | None \<Rightarrow> resp_self response))\<rparr>
         else q) (payments a)) a)\<lparr>paymentForm := paymentForm_reset\<rparr>"
  have "length (payments a2) \<le> 10" using assms by (simp add: a2_def prim_defs)
  then have "length (payments (loadRecentPayments ctor a2)) \<le> 10"
    by (rule length_loadRecentPayments)
  moreover have "payments (createPaymentIntent_next ctor ev sub response a)
      = payments (loadRecentPayments ctor a2)"
    by (simp add: createPaymentIntent_next_def a2_def Let_def)
  ultimately show ?thesis by simp
qed

lemma length_intent_error [simp]:
  "length (payments (createPaymentIntent_error sub a)) = length (payments a)"
  by (simp add: createPaymentIntent_error_def prim_defs Let_def split: option.splits)

lemma length_onReceipt [simp]:
  "length (payments (onReceipt ev i paymentId tx answer a)) = length (payments a)"
  by (simp add: onReceipt_def prim_defs stopPolling_def clearInterval_def
      split: reply.splits option.splits)

lemma length_stopPolling_le:
  "length (payments a) \<le> 10 \<Longrightarrow> length (payments (stopPolling i paymentId a)) \<le> 10"
  by (simp add: stopPolling_def clearInterval_def split: option.splits)

lemma length_onPolledPayments:
  "length (payments a) \<le> 10 \<Longrightarrow>
   length (payments (onPolledPayments ev i paymentId tx n items a)) \<le> 10"
  by (simp add: onPolledPayments_def prim_defs stopPolling_def clearInterval_def Let_def
      split: option.splits)

lemma length_clearInterval [simp]:
  "length (payments (clearInterval i a)) = length (payments a)"
  by (simp add: clearInterval_def split: option.splits)

lemma length_stopPolling [simp]:
  "length (payments (stopPolling i paymentId a)) = length (payments a)"
  by (simp add: stopPolling_def)

lemma length_interval_fire [simp]:
  "length (payments (interval_fire i has_provider a)) = length (payments a)"
  by (simp add: interval_fire_def emit_def Let_def split: option.splits)

lemma length_receipt_callback [simp]:
  "length (payments (receipt_callback ev i answer a)) = length (payments a)"
  by (simp add: receipt_callback_def split: option.splits)

lemma length_backend_callback:
  assumes "length (payments a) \<le> 10"
  shows "length (payments (backend_callback ev i http a)) \<le> 10"
  using assms length_onPolledPayments[OF assms]
  by (simp add: backend_callback_def split: option.splits sum.splits)

lemma length_poll_step:
  "length (payments a) \<le> 10 \<Longrightarrow> length (payments (poll_step ev i e a)) \<le> 10"
  by (simp add: poll_step_def length_backend_callback split: poll_event.splits)

lemma length_run_poll_events:
  "length (payments a) \<le> 10 \<Longrightarrow> length (payments (run_poll_events ev i es a)) \<le> 10"
  by (induction es arbitrary: a) (simp_all add: length_poll_step)

lemma length_interval_tick:
  assumes "length (payments a) \<le> 10"
  shows "length (payments (interval_tick ev i inp a)) \<le> 10"
  using assms
  by (simp add: interval_tick_def Let_def length_backend_callback split: option.splits)

lemma length_run_ticks:
  "length (payments a) \<le> 10 \<Longrightarrow> length (payments (run_ticks ev i inps a)) \<le> 10"
  by (induction inps arbitrary: a) (simp_all add: length_interval_tick)


lemma length_merge_foldl:
  "length acc \<le> length (foldl (\<lambda>merged e. if keep e then e # merged else merged) acc existing)"
proof (induction existing arbitrary: acc)
  case Nil
  show ?case by simp
next
  case (Cons e es)
  have "length acc \<le> length (if keep e then e # acc else acc)" by simp
  also have "\<dots> \<le> length (foldl (\<lambda>merged e. if keep e then e # merged else merged)
      (if keep e then e # acc else acc) es)"
    by (rule Cons.IH)
  finally show ?case by simp
qed

lemma length_mergeLocalPending: "length items \<le> length (mergeLocalPending items existing)"
  unfolding mergeLocalPending_def by (rule length_merge_foldl)

text \<open>
  C10. The payments list never holds more than ten entries: the demo payments are
  three, and every operation that writes the list (loading and merging the recent
  payments, the optimistic insert and the status updates of a submission, the callbacks
  of the backend call, the status polling) takes a list of at most ten entries to a list
  of at most ten entries.
\<close>

theorem payments_at_most_ten:
  assumes "length (payments a) \<le> 10"
  shows "length (demoPayments ctor) \<le> 10 \<and>
    length (payments (loadRecentPayments ctor a)) \<le> 10 \<and>
    length (payments (loadRecentPayments_next ev items a)) \<le> 10 \<and>
    length (payments (loadRecentPayments_error a)) \<le> 10 \<and>
    length (payments (submitPayment ev a)) \<le> 10 \<and>
    length (payments (updatePaymentStatus paymentId st msg tx a)) \<le> 10 \<and>
    length (payments (createPaymentIntent_next ctor ev sub response a)) \<le> 10 \<and>
    length (payments (createPaymentIntent_error sub a)) \<le> 10 \<and>
    length (payments (createPaymentIntent_complete a)) \<le> 10 \<and>
    length (payments (startPaymentStatusPolling paymentId h a)) \<le> 10 \<and>
    length (payments (interval_tick ev i inp a)) \<le> 10 \<and>
    length (payments (run_ticks ev i inps a)) \<le> 10 \<and>
    length (payments (insertPending ev a)) \<le> 10 \<and>
    length (payments (interval_fire i has_provider a)) \<le> 10 \<and>
    length (payments (receipt_callback ev i answer a)) \<le> 10 \<and>
    length (payments (backend_callback ev i http a)) \<le> 10 \<and>
    length (payments (run_poll_events ev i events a)) \<le> 10"
  using assms length_loadRecentPayments[OF assms, of ctor]
    length_loadRecentPayments_next[OF assms, of ev items]
    length_submitPayment[OF assms, of ev]
    length_intent_next[OF assms, of ctor ev sub response]
    length_interval_tick[OF assms, of ev i inp]
    length_run_ticks[OF assms, of ev i inps]
    length_backend_callback[OF assms, of ev i http]
    length_run_poll_events[OF assms, of ev i events]
  by (simp add: demoPayments_def loadRecentPayments_error_def prim_defs
      createPaymentIntent_complete_def insertPending_def Let_def)

theorem payments_at_most_ten_witness:
  "length (payments (sample_app\<lparr>payments := replicate 10 (hd (demoPayments sample_env))\<rparr>)) \<le> 10 \<and>
   length (payments (submitPayment sample_env
     (sample_app\<lparr>payments := replicate 10 (hd (demoPayments sample_env))\<rparr>))) \<le> 10 \<and>
   length (payments (loadRecentPayments_next sample_env
     (replicate 12 (hd (demoPayments sample_env)))
     (sample_app\<lparr>payments := replicate 10 (hd (demoPayments sample_env))\<rparr>))) = 10"
proof -
  have full: "length (payments (sample_app\<lparr>payments := replicate 10 (hd (demoPayments sample_env))\<rparr>)) \<le> 10"
    by simp
  have "length (payments (loadRecentPayments_next sample_env
     (replicate 12 (hd (demoPayments sample_env)))
     (sample_app\<lparr>payments := replicate 10 (hd (demoPayments sample_env))\<rparr>))) \<ge> 10"
    using length_mergeLocalPending[of "replicate 12 (hd (demoPayments sample_env))"
        "replicate 10 (hd (demoPayments sample_env))"]
    by (simp add: loadRecentPayments_next_def prim_defs)
  with payments_at_most_ten[OF full, of sample_env sample_env "replicate 12 (hd (demoPayments sample_env))"]
    full show ?thesis by simp
qed


subsection \<open>The bounds of the receipt polling and of the status polling\<close>

lemma waits_append [simp]: "waits (t @ u) = waits t @ waits u"
  by (induction t rule: waits.induct) auto

lemma waits_balance [simp]: "waits (snd (balanceCheck p wa hex)) = []"
  by (simp add: balanceCheck_def Let_def split: reply.splits option.splits)

lemma waits_poll:
  "\<exists>n. waits (snd (pollReceipt answers tx k)) = replicate n 5000 \<and> n \<le> maxAttempts - k"
proof (induction answers tx k rule: pollReceipt.induct)
  case (1 answers tx k)
  show ?case
  proof (cases "k < maxAttempts")
    case False
    then show ?thesis by (subst pollReceipt.simps) simp
  next
    case True
    show ?thesis
    proof (cases "receipt_of (answers k)")
      case None
      from 1[OF True None] obtain n where
        n: "waits (snd (pollReceipt answers tx (Suc k))) = replicate n 5000"
           "n \<le> maxAttempts - Suc k" by blast
      show ?thesis
        apply (subst pollReceipt.simps)
        apply (rule exI[of _ "Suc n"])
        using True None n by (simp add: Let_def)
    next
      case (Some r)
      show ?thesis
        apply (subst pollReceipt.simps)
        apply (rule exI[of _ 0])
        using True Some by simp
    qed
  qed
qed

lemma submitPayment_waits:
  assumes "\<not> paymentForm_invalid (paymentForm a)" and "connected (walletState a)"
  shows "waits (new_effects a (submitPayment ev a)) =
    (case ethereum (browser ev) of
       None \<Rightarrow> []
     | Some p \<Rightarrow>
         (case convertToWei (f_amount (paymentForm a)) (f_currency (paymentForm a)) of
            Inl e \<Rightarrow> []
          | Inr hex \<Rightarrow>
              (if fst (balanceCheck p (ws_address (walletState a)) hex) then []
               else
                 (case eth_sendTransaction p of
                    Rejects e \<Rightarrow> []
                  | Resolves tx \<Rightarrow> waits (snd (pollReceipt (eth_getTransactionReceipt p) tx 0))))))"
  using assms
  by (simp add: flow_defs prim_defs new_effects_def Let_def
      split: option.splits sum.splits reply.splits)

lemma submitPayment_waits_bounded:
  "list_all (\<lambda>ms. ms = 5000) (waits (new_effects a (submitPayment ev a))) \<and>
   length (waits (new_effects a (submitPayment ev a))) \<le> 60"
proof (cases "\<not> paymentForm_invalid (paymentForm a) \<and> connected (walletState a)")
  case False
  then show ?thesis
    by (auto simp: submitPayment_def prim_defs new_effects_def)
next
  case True
  then have shape: "waits (new_effects a (submitPayment ev a)) =
    (case ethereum (browser ev) of
       None \<Rightarrow> []
     | Some p \<Rightarrow>
         (case convertToWei (f_amount (paymentForm a)) (f_currency (paymentForm a)) of
            Inl e \<Rightarrow> []
          | Inr hex \<Rightarrow>
              (if fst (balanceCheck p (ws_address (walletState a)) hex) then []
               else
                 (case eth_sendTransaction p of
                    Rejects e \<Rightarrow> []
                  | Resolves tx \<Rightarrow> waits (snd (pollReceipt (eth_getTransactionReceipt p) tx 0))))))"
    by (intro submitPayment_waits) simp_all
  have poll: "list_all (\<lambda>ms. ms = 5000) (waits (snd (pollReceipt answers tx 0))) \<and>
      length (waits (snd (pollReceipt answers tx 0))) \<le> 60" for answers tx
    using waits_poll[of answers tx 0] by (auto simp: maxAttempts_def list_all_iff)
  show ?thesis
    unfolding shape using poll
    by (simp split: option.splits sum.splits reply.splits)
qed

lemma submitPayment_polls_bounded:
  "count_list (steps (new_effects a (submitPayment ev a))) ReceiptPolling \<le> 60"
proof (cases "\<not> paymentForm_invalid (paymentForm a) \<and> connected (walletState a)")
  case False
  then show ?thesis
    by (auto simp: submitPayment_def prim_defs new_effects_def)
next
  case True
  then have shape: "steps (new_effects a (submitPayment ev a)) =
    (case ethereum (browser ev) of
       None \<Rightarrow> []
     | Some p \<Rightarrow>
         WeiConversion #
         (case convertToWei (f_amount (paymentForm a)) (f_currency (paymentForm a)) of
            Inl e \<Rightarrow> []
          | Inr hex \<Rightarrow>
              steps (snd (balanceCheck p (ws_address (walletState a)) hex)) @
              (if fst (balanceCheck p (ws_address (walletState a)) hex) then []
               else Submission #
                 (case eth_sendTransaction p of
                    Rejects e \<Rightarrow> []
                  | Resolves tx \<Rightarrow>
                      steps (snd (pollReceipt (eth_getTransactionReceipt p) tx 0)) @
                      (case fst (pollReceipt (eth_getTransactionReceipt p) tx 0) of
                         None \<Rightarrow> [BackendSync]
                       | Some r \<Rightarrow> if isSuccess r then [BackendSync] else [])))))"
    by (intro submitPayment_steps) simp_all
  show ?thesis
    unfolding shape using poll_steps_count
    by (simp split: option.splits sum.splits reply.splits)
qed


lemmas poll_defs = stopPolling_def clearInterval_def

lemma startPolling_interval:
  "intervals (startPaymentStatusPolling paymentId tx a) (Suc (lastInterval a)) =
     Some \<lparr>pollCount = 0, poll_paymentId = paymentId, poll_txHash = tx, period = 10000,
           running = True\<rparr> \<and>
   effects (startPaymentStatusPolling paymentId tx a) = effects a"
  by (simp add: startPaymentStatusPolling_def clearInterval_def Let_def split: option.splits)

text \<open>A firing of a running interval counts one poll and requests the recent payments.\<close>

lemma fire_running:
  assumes "intervals st i = Some pl" and "running pl"
  shows "intervals (interval_fire i has_provider st) i = Some (pl\<lparr>pollCount := Suc (pollCount pl)\<rparr>)"
    and "count_list (effects (interval_fire i has_provider st)) GetRecentPayments
           = Suc (count_list (effects st) GetRecentPayments)"
  using assms by (simp_all add: interval_fire_def emit_def Let_def)

lemma fires_unanswered:
  assumes "intervals st i = Some pl" and "running pl"
  shows "intervals (run_poll_events ev i (replicate n (Fire has_provider)) st) i
           = Some (pl\<lparr>pollCount := pollCount pl + n\<rparr>) \<and>
         count_list (effects (run_poll_events ev i (replicate n (Fire has_provider)) st))
           GetRecentPayments
           = count_list (effects st) GetRecentPayments + n"
  using assms
proof (induction n arbitrary: st pl)
  case 0
  then show ?case by simp
next
  case (Suc n)
  let ?st' = "interval_fire i has_provider st"
  note fired = fire_running[OF Suc.prems, of has_provider]
  have "running (pl\<lparr>pollCount := Suc (pollCount pl)\<rparr>)" using Suc.prems(2) by simp
  from Suc.IH[OF fired(1) this] fired(2) show ?case
    by (simp add: poll_step_def)
qed

text \<open>An answer to a receipt request that holds no receipt changes nothing.\<close>

lemma receipt_callback_null: "receipt_callback ev i (Resolves None) st = st"
  by (simp add: receipt_callback_def onReceipt_def split: option.splits)

lemma fires_null_receipts:
  assumes "intervals st i = Some pl" and "running pl"
  shows "intervals (run_poll_events ev i
                      (concat (replicate n [Fire has_provider, ReceiptAnswer (Resolves None)])) st) i
           = Some (pl\<lparr>pollCount := pollCount pl + n\<rparr>) \<and>
         count_list (effects (run_poll_events ev i
                      (concat (replicate n [Fire has_provider, ReceiptAnswer (Resolves None)])) st))
           GetRecentPayments
           = count_list (effects st) GetRecentPayments + n"
  using assms
proof (induction n arbitrary: st pl)
  case 0
  then show ?case by simp
next
  case (Suc n)
  let ?st' = "interval_fire i has_provider st"
  note fired = fire_running[OF Suc.prems, of has_provider]
  have "running (pl\<lparr>pollCount := Suc (pollCount pl)\<rparr>)" using Suc.prems(2) by simp
  from Suc.IH[OF fired(1) this] fired(2) show ?case
    by (simp add: poll_step_def receipt_callback_null)
qed

text \<open>
  C6. The receipt loop of a submission is bounded (at most 60 requests and 60 waits of
  5000 ms, see \<open>submitPayment_polls_bounded\<close> and \<open>submitPayment_waits_bounded\<close>), and
  the status polling is an interval of 10000 ms that starts with a poll count of zero.
  The interval, however, is not cleared after 30 polls: its callback only counts and
  sends requests, and the test \<open>pollCount >= maxPolls\<close> is made where an answer
  arrives. As long as no answer of the backend has arrived, the interval goes on: after
  any number \<open>n\<close> of firings it is still running, has counted \<open>n\<close> polls and has
  requested the recent payments \<open>n\<close> times, whether the receipt requests are unanswered
  too or are answered each time with \<open>null\<close> (no receipt yet).
\<close>

theorem status_polling_unbounded:
  "intervals (startPaymentStatusPolling paymentId tx a) (Suc (lastInterval a)) =
     Some \<lparr>pollCount = 0, poll_paymentId = paymentId, poll_txHash = tx, period = 10000,
           running = True\<rparr> \<and>
   intervals (run_poll_events ev (Suc (lastInterval a)) (replicate n (Fire has_provider))
                (startPaymentStatusPolling paymentId tx a)) (Suc (lastInterval a)) =
     Some \<lparr>pollCount = n, poll_paymentId = paymentId, poll_txHash = tx, period = 10000,
           running = True\<rparr> \<and>
   count_list (effects (run_poll_events ev (Suc (lastInterval a)) (replicate n (Fire has_provider))
                          (startPaymentStatusPolling paymentId tx a))) GetRecentPayments
     = count_list (effects a) GetRecentPayments + n \<and>
   intervals (run_poll_events ev (Suc (lastInterval a))
                (concat (replicate n [Fire has_provider, ReceiptAnswer (Resolves None)]))
                (startPaymentStatusPolling paymentId tx a)) (Suc (lastInterval a)) =
     Some \<lparr>pollCount = n, poll_paymentId = paymentId, poll_txHash = tx, period = 10000,
           running = True\<rparr> \<and>
   count_list (effects (run_poll_events ev (Suc (lastInterval a))
                          (concat (replicate n [Fire has_provider, ReceiptAnswer (Resolves None)]))
                          (startPaymentStatusPolling paymentId tx a))) GetRecentPayments
     = count_list (effects a) GetRecentPayments + n"
proof -
  let ?pl = "\<lparr>pollCount = 0, poll_paymentId = paymentId, poll_txHash = tx, period = 10000,
             running = True\<rparr>"
  have start: "intervals (startPaymentStatusPolling paymentId tx a) (Suc (lastInterval a)) = Some ?pl"
      "effects (startPaymentStatusPolling paymentId tx a) = effects a"
    using startPolling_interval[of paymentId tx a] by simp_all
  have "running ?pl" by simp
  from fires_unanswered[OF start(1) this, of ev n has_provider]
    fires_null_receipts[OF start(1) this, of ev n has_provider] start
  show ?thesis
    by simp
qed

text \<open>
  At the sample: 31 firings without an answer leave the interval running with a poll
  count of 31, above \<open>maxPolls\<close>, after 31 requests for the recent payments; the
  answer to one of them, arriving then, clears it.
\<close>

theorem status_polling_unbounded_witness:
  "maxPolls < 31 \<and>
   intervals (run_poll_events sample_env (Suc 0) (replicate 31 (Fire True))
                (startPaymentStatusPolling ''pending-1700000000000'' ''0x88df'' sample_app)) (Suc 0) =
     Some \<lparr>pollCount = 31, poll_paymentId = ''pending-1700000000000'', poll_txHash = ''0x88df'',
           period = 10000, running = True\<rparr> \<and>
   count_list (effects (run_poll_events sample_env (Suc 0) (replicate 31 (Fire True))
                          (startPaymentStatusPolling ''pending-1700000000000'' ''0x88df'' sample_app)))
     GetRecentPayments = 31 \<and>
   intervals (run_poll_events sample_env (Suc 0)
                (replicate 31 (Fire True) @ [BackendAnswer (Inr (Some \<lparr>payments_field = Some []\<rparr>))])
                (startPaymentStatusPolling ''pending-1700000000000'' ''0x88df'' sample_app)) (Suc 0) =
     Some \<lparr>pollCount = 31, poll_paymentId = ''pending-1700000000000'', poll_txHash = ''0x88df'',
           period = 10000, running = False\<rparr>"
proof -
  let ?st = "startPaymentStatusPolling ''pending-1700000000000'' ''0x88df'' sample_app"
  let ?late = "run_poll_events sample_env (Suc 0) (replicate 31 (Fire True)) ?st"
  have last: "lastInterval sample_app = 0" "effects sample_app = []"
    by (simp_all add: sample_app_def)
  from status_polling_unbounded[of "''pending-1700000000000''" "''0x88df''" sample_app
      sample_env 31 True]
  have still: "intervals ?late (Suc 0) =
      Some \<lparr>pollCount = 31, poll_paymentId = ''pending-1700000000000'', poll_txHash = ''0x88df'',
            period = 10000, running = True\<rparr>"
    and asked: "count_list (effects ?late) GetRecentPayments = 31"
    by (simp_all add: last)
  have split: "run_poll_events ev i (es @ [e]) st = poll_step ev i e (run_poll_events ev i es st)"
    for ev i es e st
    by (induction es arbitrary: st) simp_all
  have late: "intervals (run_poll_events sample_env (Suc 0)
                (replicate 31 (Fire True) @ [BackendAnswer (Inr (Some \<lparr>payments_field = Some []\<rparr>))])
                ?st) (Suc 0) =
     Some \<lparr>pollCount = 31, poll_paymentId = ''pending-1700000000000'', poll_txHash = ''0x88df'',
           period = 10000, running = False\<rparr>"
    unfolding split
    by (simp add: poll_step_def backend_callback_def still getRecentPayments_def map_rx_def
        catchError_def payments_or_empty_def onPolledPayments_def maxPolls_def poll_defs)
  from still asked late show ?thesis by (simp add: maxPolls_def)
qed

text \<open>
  When the answers to the two requests of each firing arrive before the next firing, the
  interval polls at most 30 times.
\<close>

lemma intervals_clearInterval:
  "intervals st i = Some pl \<Longrightarrow> intervals (clearInterval i st) i = Some (pl\<lparr>running := False\<rparr>)"
  by (simp add: clearInterval_def)

lemma polls_onReceipt [simp]:
  "count_list (effects (onReceipt ev i paymentId tx answer a)) GetRecentPayments
     = count_list (effects a) GetRecentPayments"
  by (simp add: onReceipt_def prim_defs poll_defs split: reply.splits option.splits)

lemma polls_onPolled [simp]:
  "count_list (effects (onPolledPayments ev i paymentId tx n items a)) GetRecentPayments
     = count_list (effects a) GetRecentPayments"
  by (simp add: onPolledPayments_def prim_defs poll_defs Let_def split: option.splits)

lemma polls_receipt_callback [simp]:
  "count_list (effects (receipt_callback ev i answer a)) GetRecentPayments
     = count_list (effects a) GetRecentPayments"
  by (simp add: receipt_callback_def split: option.splits)

lemma polls_backend_callback [simp]:
  "count_list (effects (backend_callback ev i http a)) GetRecentPayments
     = count_list (effects a) GetRecentPayments"
  by (simp add: backend_callback_def poll_defs split: option.splits sum.splits)

lemma intervals_onReceipt:
  assumes "intervals st i = Some pl"
  shows "intervals (onReceipt ev i paymentId tx answer st) i =
     (case receipt_of answer of None \<Rightarrow> Some pl | Some r \<Rightarrow> Some (pl\<lparr>running := False\<rparr>))"
  using assms
  by (simp add: onReceipt_def receipt_of_def prim_defs poll_defs split: reply.splits option.splits)

lemma intervals_onPolled:
  assumes "intervals st i = Some pl"
  shows "intervals (onPolledPayments ev i paymentId tx n items st) i =
     (if (if items \<noteq> [] then
            (case find (matches paymentId tx) items of
               None \<Rightarrow> n \<ge> maxPolls
             | Some q \<Rightarrow> status q \<noteq> pending \<or> n \<ge> maxPolls)
          else n \<ge> maxPolls)
      then Some (pl\<lparr>running := False\<rparr>) else Some pl)"
  using assms
  by (simp add: onPolledPayments_def prim_defs poll_defs Let_def split: option.splits)

lemma intervals_receipt_callback:
  assumes "intervals st i = Some pl"
  shows "intervals (receipt_callback ev i answer st) i = Some pl \<or>
         intervals (receipt_callback ev i answer st) i = Some (pl\<lparr>running := False\<rparr>)"
  using assms intervals_onReceipt[OF assms, of ev "poll_paymentId pl" "poll_txHash pl" answer]
  by (simp add: receipt_callback_def split: option.splits)

lemma intervals_backend_callback:
  assumes "intervals st i = Some pl"
  shows "intervals (backend_callback ev i http st) i = Some (pl\<lparr>running := False\<rparr>) \<or>
         (intervals (backend_callback ev i http st) i = Some pl \<and> pollCount pl < maxPolls)"
  using assms
    intervals_onPolled[OF assms, of ev "poll_paymentId pl" "poll_txHash pl" "pollCount pl"]
  by (auto simp: backend_callback_def poll_defs split: sum.splits option.splits)

lemma tick_inactive:
  "intervals st i = Some pl \<Longrightarrow> \<not> running pl \<Longrightarrow> interval_tick ev i inp st = st"
  by (simp add: interval_tick_def)

lemma tick_active:
  assumes "intervals st i = Some pl" and "running pl"
  shows "count_list (effects (interval_tick ev i inp st)) GetRecentPayments
           = Suc (count_list (effects st) GetRecentPayments)"
    and "\<exists>pl'. intervals (interval_tick ev i inp st) i = Some pl' \<and>
           (\<not> running pl' \<or>
            (pl' = pl\<lparr>pollCount := Suc (pollCount pl)\<rparr> \<and> Suc (pollCount pl) < maxPolls))"
proof -
  let ?pl1 = "pl\<lparr>pollCount := Suc (pollCount pl)\<rparr>"
  have "\<exists>hp a2. interval_tick ev i inp st = backend_callback ev i (tick_http inp) a2 \<and>
      (a2 = interval_fire i hp st \<or>
       (\<exists>answer. a2 = receipt_callback ev i answer (interval_fire i hp st)))"
  proof (cases "tick_receipt inp")
    case None
    with assms have "interval_tick ev i inp st
        = backend_callback ev i (tick_http inp) (interval_fire i False st)"
      by (simp add: interval_tick_def)
    then show ?thesis by blast
  next
    case (Some answer)
    show ?thesis
    proof (cases "poll_txHash pl = []")
      case True
      with Some assms have "interval_tick ev i inp st
          = backend_callback ev i (tick_http inp) (interval_fire i True st)"
        by (simp add: interval_tick_def Let_def)
      then show ?thesis by blast
    next
      case False
      with Some assms have "interval_tick ev i inp st
          = backend_callback ev i (tick_http inp)
              (receipt_callback ev i answer (interval_fire i True st))"
        by (simp add: interval_tick_def Let_def)
      then show ?thesis by blast
    qed
  qed
  then obtain hp a2 where tick: "interval_tick ev i inp st = backend_callback ev i (tick_http inp) a2"
    and a2: "a2 = interval_fire i hp st \<or>
             (\<exists>answer. a2 = receipt_callback ev i answer (interval_fire i hp st))"
    by blast
  note fired = fire_running[OF assms, of hp]
  from a2 fired(2) have count: "count_list (effects a2) GetRecentPayments
      = Suc (count_list (effects st) GetRecentPayments)"
    by auto
  from a2 fired(1) intervals_receipt_callback[OF fired(1), of ev]
  have mid: "intervals a2 i = Some ?pl1 \<or> intervals a2 i = Some (?pl1\<lparr>running := False\<rparr>)"
    by auto
  show "count_list (effects (interval_tick ev i inp st)) GetRecentPayments
           = Suc (count_list (effects st) GetRecentPayments)"
    by (simp add: tick count)
  from mid show "\<exists>pl'. intervals (interval_tick ev i inp st) i = Some pl' \<and>
           (\<not> running pl' \<or>
            (pl' = pl\<lparr>pollCount := Suc (pollCount pl)\<rparr> \<and> Suc (pollCount pl) < maxPolls))"
  proof
    assume m: "intervals a2 i = Some ?pl1"
    from intervals_backend_callback[OF m, of ev "tick_http inp"] show ?thesis
      unfolding tick by auto
  next
    assume m: "intervals a2 i = Some (?pl1\<lparr>running := False\<rparr>)"
    from intervals_backend_callback[OF m, of ev "tick_http inp"] show ?thesis
      unfolding tick by auto
  qed
qed

lemma run_ticks_inactive:
  "intervals st i = Some pl \<Longrightarrow> \<not> running pl \<Longrightarrow> run_ticks ev i inps st = st"
  by (induction inps) (simp_all add: tick_inactive)

lemma run_ticks_bounded:
  assumes "intervals st i = Some pl" and "running pl" and "pollCount pl < maxPolls"
  shows "count_list (effects (run_ticks ev i inps st)) GetRecentPayments
           \<le> count_list (effects st) GetRecentPayments + (maxPolls - pollCount pl) \<and>
         (maxPolls - pollCount pl \<le> length inps \<longrightarrow>
            (\<exists>pl'. intervals (run_ticks ev i inps st) i = Some pl' \<and> \<not> running pl'))"
  using assms
proof (induction inps arbitrary: st pl)
  case Nil
  then show ?case by simp
next
  case (Cons inp inps)
  let ?st' = "interval_tick ev i inp st"
  note step = tick_active[OF Cons.prems(1,2), of ev inp]
  from step(2) obtain pl' where pl': "intervals ?st' i = Some pl'"
    and alt: "\<not> running pl' \<or>
      (pl' = pl\<lparr>pollCount := Suc (pollCount pl)\<rparr> \<and> Suc (pollCount pl) < maxPolls)"
    by blast
  show ?case
  proof (cases "running pl'")
    case False
    with pl' have "run_ticks ev i inps ?st' = ?st'" by (intro run_ticks_inactive)
    with pl' False step(1) Cons.prems(3) show ?thesis by auto
  next
    case True
    with alt have eq: "pl' = pl\<lparr>pollCount := Suc (pollCount pl)\<rparr>"
      and less: "Suc (pollCount pl) < maxPolls" by auto
    then have "pollCount pl' < maxPolls" by simp
    from Cons.IH[OF pl' True this] step(1) eq less show ?thesis by auto
  qed
qed

lemma prompt_polling_bounded:
  "count_list (effects (run_ticks ev (Suc (lastInterval a)) inps
                 (startPaymentStatusPolling paymentId tx a))) GetRecentPayments
     \<le> count_list (effects a) GetRecentPayments + 30 \<and>
   (30 \<le> length inps \<longrightarrow>
      (\<exists>pl. intervals (run_ticks ev (Suc (lastInterval a)) inps
                  (startPaymentStatusPolling paymentId tx a)) (Suc (lastInterval a)) = Some pl \<and>
            \<not> running pl))"
proof -
  let ?pl = "\<lparr>pollCount = 0, poll_paymentId = paymentId, poll_txHash = tx, period = 10000,
             running = True\<rparr>"
  have start: "intervals (startPaymentStatusPolling paymentId tx a) (Suc (lastInterval a)) = Some ?pl"
      "effects (startPaymentStatusPolling paymentId tx a) = effects a"
    using startPolling_interval[of paymentId tx a] by simp_all
  have "running ?pl" "pollCount ?pl < maxPolls" by (simp_all add: maxPolls_def)
  from run_ticks_bounded[OF start(1) this, of ev inps] start(2) show ?thesis
    by (simp add: maxPolls_def)
qed

text \<open>
  An interval is cleared by the answer to a receipt request that holds a receipt, and
  by an answer of the backend that holds the payment (by id or by transaction hash)
  with a status other than \<open>pending\<close>.
\<close>

lemma receipt_clears:
  assumes "intervals st i = Some pl"
  shows "intervals (receipt_callback ev i (Resolves (Some r)) st) i = Some (pl\<lparr>running := False\<rparr>)"
  using intervals_onReceipt[OF assms, of ev "poll_paymentId pl" "poll_txHash pl" "Resolves (Some r)"]
    assms
  by (simp add: receipt_callback_def receipt_of_def)

lemma backend_clears:
  assumes "intervals st i = Some pl"
    and "find (\<lambda>p. pid p = poll_paymentId pl \<or> transaction_hash p = Some (poll_txHash pl)) items
           = Some q"
    and "status q \<noteq> pending"
  shows "intervals (backend_callback ev i (Inr (Some \<lparr>payments_field = Some items\<rparr>)) st) i
           = Some (pl\<lparr>running := False\<rparr>)"
proof -
  from assms(2) have items: "items \<noteq> []" by auto
  have m: "matches (poll_paymentId pl) (poll_txHash pl)
      = (\<lambda>p. pid p = poll_paymentId pl \<or> transaction_hash p = Some (poll_txHash pl))"
    by (simp add: matches_def fun_eq_iff)
  from intervals_onPolled[OF assms(1), of ev "poll_paymentId pl" "poll_txHash pl" "pollCount pl" items]
    assms items
  show ?thesis
    by (simp add: backend_callback_def getRecentPayments_def map_rx_def catchError_def
        payments_or_empty_def m)
qed


end
